theory Spec2Isabelle
  imports Main "HOL-Library.Sublist"
begin

section \<open>Python strings\<close>

text \<open>
  A string is the list of the UTF-8 bytes of a Python \<open>str\<close>. Equality, concatenation
  and the occurrence of an ASCII pattern are the same on the bytes as on the text.
  \<open>contains sub s\<close> is Python's \<open>sub in s\<close>, \<open>join sep parts\<close> is \<open>sep.join(parts)\<close>, and
  \<open>str_int\<close> is \<open>str\<close> on an integer (what an f-string prints for it).
\<close>

definition lower_char :: "char \<Rightarrow> char" where
  "lower_char c =
     (case map_of (zip ''ABCDEFGHIJKLMNOPQRSTUVWXYZ'' ''abcdefghijklmnopqrstuvwxyz'') c of
        Some d \<Rightarrow> d
      | None \<Rightarrow> c)"

text \<open>
  \<open>lower\<close> is \<open>str.lower\<close>, which works on Unicode text. The letters A to Z move to
  a to z. Two characters outside ASCII lower-case to ASCII letters: the Kelvin sign
  U+212A (bytes E2 84 AA) becomes \<open>k\<close>, and the dotted capital I, U+0130 (bytes C4 B0),
  becomes \<open>i\<close> followed by the combining dot U+0307 (bytes CC 87). Every other character
  outside ASCII lower-cases to characters outside ASCII; its bytes are kept, which
  leaves every occurrence of an ASCII pattern in the result as it is in \<open>str.lower\<close>.
\<close>

fun lower :: "string \<Rightarrow> string" where
  "lower (a # b # c # cs) =
     (if a = CHR 0xE2 \<and> b = CHR 0x84 \<and> c = CHR 0xAA then CHR ''k'' # lower cs
      else if a = CHR 0xC4 \<and> b = CHR 0xB0
        then CHR ''i'' # CHR 0xCC # CHR 0x87 # lower (c # cs)
      else lower_char a # lower (b # c # cs))"
| "lower [a, b] =
     (if a = CHR 0xC4 \<and> b = CHR 0xB0 then [CHR ''i'', CHR 0xCC, CHR 0x87]
      else [lower_char a, lower_char b])"
| "lower [a] = [lower_char a]"
| "lower [] = []"

fun contains :: "string \<Rightarrow> string \<Rightarrow> bool" where
  "contains sub [] = (sub = [])"
| "contains sub (c # cs) = (prefix sub (c # cs) \<or> contains sub cs)"

fun join :: "string \<Rightarrow> string list \<Rightarrow> string" where
  "join sep [] = []"
| "join sep [p] = p"
| "join sep (p # q # ps) = p @ sep @ join sep (q # ps)"

text \<open>The one-character string \<open>"\n"\<close>.\<close>

definition nl :: string where
  "nl = [CHR 0x0A]"

definition digit_char :: "nat \<Rightarrow> char" where
  "digit_char d = ''0123456789'' ! d"

fun str_nat :: "nat \<Rightarrow> string" where
  "str_nat n =
     (if n < 10 then [digit_char n] else str_nat (n div 10) @ [digit_char (n mod 10)])"

declare str_nat.simps [simp del]

definition str_int :: "int \<Rightarrow> string" where
  "str_int i = (if i < 0 then CHR ''-'' # str_nat (nat (- i)) else str_nat (nat i))"

section \<open>URL classifier\<close>

text \<open>
  The four category strings of the code, \<open>"academic"\<close>, \<open>"news"\<close>, \<open>"docs"\<close> and
  \<open>"other"\<close>, as an enumeration.
\<close>

datatype category = Academic | News | Docs | Other

definition academic_domains :: "string list" where
  "academic_domains =
     [''arxiv.org'', ''doi.org'', ''pubmed'', ''springer.com'', ''nature.com'',
      ''sciencedirect'', ''.edu/'', ''acm.org'', ''ieee.org'', ''scholar.google'',
      ''ncbi.nlm.nih'', ''plos.org'', ''frontiersin.org'', ''biorxiv.org'',
      ''medrxiv.org'', ''researchgate.net'', ''semanticscholar.org'']"

definition docs_patterns :: "string list" where
  "docs_patterns =
     [''docs.'', ''/docs/'', ''documentation'', ''readme'', ''github.com'',
      ''gitlab.com'', ''api.'', ''developer.'', ''devdocs'']"

definition news_domains :: "string list" where
  "news_domains =
     [''techcrunch'', ''wired.com'', ''theverge'', ''arstechnica'', ''bbc.'', ''cnn.'',
      ''reuters.'', ''nytimes'', ''wsj.com'', ''bloomberg.'', ''/news/'', ''/blog/'',
      ''medium.com'', ''substack.com'', ''venturebeat'', ''thenextweb'']"

text \<open>
  \<open>_categorize_url\<close> of the fallback-capable module: three \<open>any(domain in url_lower ...)\<close>
  tests in the order academic, docs, news, each returning at once.
\<close>

definition categorize_url :: "string \<Rightarrow> category" where
  "categorize_url url =
     (let url_lower = lower url
      in if list_ex (\<lambda>domain. contains domain url_lower) academic_domains then Academic
         else if list_ex (\<lambda>domain. contains domain url_lower) docs_patterns then Docs
         else if list_ex (\<lambda>domain. contains domain url_lower) news_domains then News
         else Other)"

text \<open>
  \<open>hits table url\<close> names one of these \<open>any(...)\<close> tests: some entry of the table occurs
  in the lower-cased URL.
\<close>

definition hits :: "string list \<Rightarrow> string \<Rightarrow> bool" where
  "hits table url = list_ex (\<lambda>entry. contains entry (lower url)) table"

text \<open>
  \<open>plain d\<close>: the pattern \<open>d\<close> is ASCII text without upper-case letters, as every entry
  of the three tables is.
\<close>

definition plain :: "string \<Rightarrow> bool" where
  "plain d \<longleftrightarrow> list_all (\<lambda>c. \<not> digit7 c \<and> lower_char c = c) d"

section \<open>The deep-research response\<close>

text \<open>
  The SDK's response objects are read with \<open>getattr(obj, name, default)\<close>. An attribute
  is \<open>Missing\<close>, present with the value \<open>None\<close> (\<open>Null\<close>), or present with a string.
  \<open>getattr_none a\<close> is \<open>getattr(obj, name, None)\<close> and \<open>getattr_or a d\<close> is
  \<open>getattr(obj, name, d)\<close>; both give a Python value that is a string or \<open>None\<close>.
\<close>

datatype attr = Missing | Null | Str string

definition getattr_none :: "attr \<Rightarrow> string option" where
  "getattr_none a = (case a of Str s \<Rightarrow> Some s | _ \<Rightarrow> None)"

definition getattr_or :: "attr \<Rightarrow> string option \<Rightarrow> string option" where
  "getattr_or a d = (case a of Missing \<Rightarrow> d | Null \<Rightarrow> None | Str s \<Rightarrow> Some s)"

definition truthy_str :: "string option \<Rightarrow> bool" where
  "truthy_str v = (case v of None \<Rightarrow> False | Some s \<Rightarrow> s \<noteq> [])"

record annotation =
  an_url :: attr
  an_title :: attr

record content_item =
  ci_type :: "string option"
  ci_text :: attr
  ci_annotations :: "annotation list option"

record source_result =
  sr_url :: attr
  sr_title :: attr
  sr_name :: attr

text \<open>
  An output item with its discriminant \<open>type\<close>; \<open>oi_content\<close> and \<open>oi_results\<close> are
  \<open>getattr(item, "content", [])\<close> and \<open>getattr(item, "results", [])\<close>.
\<close>

record output_item =
  oi_type :: "string option"
  oi_content :: "content_item list"
  oi_results :: "source_result list"

record usage =
  input_tokens :: "int option"
  output_tokens :: "int option"

record response =
  r_model :: string
  r_status :: string
  r_error :: "(string \<times> string) option"
  r_output :: "output_item list"
  r_usage :: "usage option"

section \<open>The canonical result\<close>

record citation =
  cit_url :: string
  cit_title :: string
  cit_category :: category

text \<open>
  The result dictionary. \<open>res_usage\<close> is the \<open>usage\<close> dictionary as an association list
  (\<open>{}\<close> is \<open>[]\<close>); \<open>res_error\<close> is the optional \<open>error\<close> entry with its code and message.
\<close>

record result =
  res_content :: string
  res_citations :: "citation list"
  res_usage :: "(string \<times> int) list"
  res_model :: string
  res_status :: string
  res_error :: "(string \<times> string) option"

section \<open>\<open>_parse_response\<close>\<close>

text \<open>
  The three accumulators of the walk: \<open>text_parts\<close>, \<open>citations\<close> and \<open>seen_urls\<close>.
\<close>

record walk =
  text_parts :: "string list"
  citations :: "citation list"
  seen_urls :: "string set"

text \<open>\<open>title if title and title != url else "Untitled"\<close>\<close>

definition display_title :: "string option \<Rightarrow> string option \<Rightarrow> string" where
  "display_title title url = (if truthy_str title \<and> title \<noteq> url then the title else ''Untitled'')"

text \<open>
  The block that the three branches share:
  \<open>if url and url not in seen_urls: seen_urls.add(url); citations.append({...})\<close>.
\<close>

definition add_citation :: "string option \<Rightarrow> string option \<Rightarrow> walk \<Rightarrow> walk" where
  "add_citation url title w =
     (case url of
        None \<Rightarrow> w
      | Some u \<Rightarrow>
          if u \<noteq> [] \<and> u \<notin> seen_urls w
          then w\<lparr>seen_urls := insert u (seen_urls w),
                 citations := citations w @
                   [\<lparr>cit_url = u, cit_title = display_title title url,
                     cit_category = categorize_url u\<rparr>]\<rparr>
          else w)"

definition walk_annotation :: "walk \<Rightarrow> annotation \<Rightarrow> walk" where
  "walk_annotation w a =
     (let url = getattr_none (an_url a);
          title = getattr_or (an_title a) url
      in add_citation url title w)"

definition walk_content_item :: "walk \<Rightarrow> content_item \<Rightarrow> walk" where
  "walk_content_item w ci =
     (if ci_type ci = Some ''output_text'' \<or> ci_type ci = Some ''text''
      then
        let text = getattr_or (ci_text ci) (Some []);
            w1 = (if truthy_str text then w\<lparr>text_parts := text_parts w @ [the text]\<rparr> else w);
            annotations = (case ci_annotations ci of None \<Rightarrow> [] | Some as \<Rightarrow> as)
        in foldl walk_annotation w1 annotations
      else w)"

definition walk_search_result :: "walk \<Rightarrow> source_result \<Rightarrow> walk" where
  "walk_search_result w r =
     (let url = getattr_none (sr_url r);
          title = (if truthy_str (getattr_none (sr_title r)) then getattr_none (sr_title r)
                   else getattr_or (sr_name r) url)
      in add_citation url title w)"

definition walk_fetch_result :: "walk \<Rightarrow> source_result \<Rightarrow> walk" where
  "walk_fetch_result w r =
     (let url = getattr_none (sr_url r);
          title = (if truthy_str (getattr_none (sr_title r)) then getattr_none (sr_title r)
                   else url)
      in add_citation url title w)"

definition walk_item :: "walk \<Rightarrow> output_item \<Rightarrow> walk" where
  "walk_item w item =
     (if oi_type item = Some ''message'' then foldl walk_content_item w (oi_content item)
      else if oi_type item = Some ''search_results''
        then foldl walk_search_result w (oi_results item)
      else if oi_type item = Some ''fetch_url_results''
        then foldl walk_fetch_result w (oi_results item)
      else w)"

text \<open>\<open>x or 0\<close> on an optional integer.\<close>

definition or_zero :: "int option \<Rightarrow> int" where
  "or_zero v = (case v of None \<Rightarrow> 0 | Some n \<Rightarrow> n)"

definition parse_response :: "response \<Rightarrow> result" where
  "parse_response resp =
     (let w = foldl walk_item \<lparr>text_parts = [], citations = [], seen_urls = {}\<rparr> (r_output resp)
      in \<lparr>res_content = join nl (text_parts w),
          res_citations = citations w,
          res_usage =
            (case r_usage resp of
               None \<Rightarrow> []
             | Some u \<Rightarrow>
                 [(''input_tokens'', or_zero (input_tokens u)),
                  (''output_tokens'', or_zero (output_tokens u)),
                  (''total_tokens'', or_zero (input_tokens u) + or_zero (output_tokens u))]),
          res_model = r_model resp,
          res_status = r_status resp,
          res_error = r_error resp\<rparr>)"

section \<open>\<open>_format_structured_output\<close>\<close>

text \<open>
  \<open>by_category\<close> is a dictionary with the four categories as keys, filled by one pass
  over \<open>enumerate(citations, 1)\<close>; \<open>category_names\<close> is iterated in its insertion order
  academic, news, docs, other.
\<close>

definition group_citations :: "citation list \<Rightarrow> category \<Rightarrow> (nat \<times> citation) list" where
  "group_citations cs =
     foldl (\<lambda>by_category (i, c).
              by_category(cit_category c := by_category (cit_category c) @ [(i, c)]))
       (\<lambda>_. []) (enumerate 1 cs)"

definition category_names :: "(category \<times> string) list" where
  "category_names =
     [(Academic, ''### Academic Sources''),
      (News, ''### News & Industry''),
      (Docs, ''### Documentation''),
      (Other, ''### Other Sources'')]"

definition render_citation :: "string list \<Rightarrow> nat \<times> citation \<Rightarrow> string list" where
  "render_citation parts ic =
     (case ic of (i, c) \<Rightarrow>
        if cit_url c = [] then parts
        else parts @ [''- ['' @ str_nat i @ ''] '' @ cit_title c, ''  URL: '' @ cit_url c])"

definition render_category ::
  "(category \<Rightarrow> (nat \<times> citation) list) \<Rightarrow> string list \<Rightarrow> category \<times> string \<Rightarrow> string list" where
  "render_category by_category parts cn =
     (case cn of (cat, name) \<Rightarrow>
        if by_category cat \<noteq> []
        then foldl render_citation (parts @ [nl @ name]) (by_category cat)
        else parts)"

definition format_parts :: "result \<Rightarrow> string list" where
  "format_parts r =
     (let parts = [res_content r];
          parts =
            (if res_citations r \<noteq> []
             then foldl (render_category (group_citations (res_citations r)))
                    (parts @ [nl @ nl @ ''## References'' @ nl]) category_names
             else parts);
          parts =
            (if res_usage r \<noteq> []
             then parts @
                    [nl @ nl @ ''---'' @ nl @ ''Tokens: '' @
                     (case map_of (res_usage r) ''total_tokens'' of
                        None \<Rightarrow> ''N/A''
                      | Some n \<Rightarrow> str_int n)]
             else parts)
      in parts)"

definition format_structured_output :: "result \<Rightarrow> string" where
  "format_structured_output r = join nl (format_parts r)"

section \<open>The chat response\<close>

record chat_message =
  m_content :: "string option"
  m_citations :: "string list option"

record chat_usage =
  prompt_tokens :: "int option"
  completion_tokens :: "int option"
  total_tokens :: "int option"

record chat_response =
  ch_choices :: "chat_message list"
  ch_usage :: "chat_usage option"

text \<open>
  The part of \<open>_execute_chat\<close> that builds the result dictionary from the response:
  content and citations of the first choice, then the usage.
\<close>

definition chat_add_citation :: "citation list \<Rightarrow> string \<Rightarrow> citation list" where
  "chat_add_citation cs url =
     (if url \<notin> set (map cit_url cs)
      then cs @ [\<lparr>cit_url = url, cit_title = ''Citation'', cit_category = categorize_url url\<rparr>]
      else cs)"

definition chat_result :: "chat_response \<Rightarrow> string \<Rightarrow> result" where
  "chat_result resp model =
     (let (content, cits) =
            (case ch_choices resp of
               [] \<Rightarrow> ([], [])
             | message # _ \<Rightarrow>
                 ((case m_content message of None \<Rightarrow> [] | Some s \<Rightarrow> s),
                  (case m_citations message of
                     None \<Rightarrow> []
                   | Some urls \<Rightarrow> foldl chat_add_citation [] urls)))
      in \<lparr>res_content = content,
          res_citations = cits,
          res_usage =
            (case ch_usage resp of
               None \<Rightarrow> []
             | Some u \<Rightarrow>
                 [(''input_tokens'', or_zero (prompt_tokens u)),
                  (''output_tokens'', or_zero (completion_tokens u)),
                  (''total_tokens'', or_zero (total_tokens u))]),
          res_model = model,
          res_status = ''completed'',
          res_error = None\<rparr>)"

section \<open>The tool input\<close>

text \<open>
  The input dictionary maps keys to Python values; the scalars \<open>None\<close>, booleans,
  integers and strings are modelled. \<open>truthy\<close> is Python's truth test, \<open>py_str\<close> is
  \<open>str(v)\<close>, \<open>dict_get\<close> is \<open>input.get(key)\<close> and \<open>dict_get_default\<close> is
  \<open>input.get(key, default)\<close>.
\<close>

datatype pyval = VNone | VBool bool | VInt int | VStr string

fun truthy :: "pyval \<Rightarrow> bool" where
  "truthy VNone = False"
| "truthy (VBool b) = b"
| "truthy (VInt i) = (i \<noteq> 0)"
| "truthy (VStr s) = (s \<noteq> [])"

fun py_str :: "pyval \<Rightarrow> string" where
  "py_str VNone = ''None''"
| "py_str (VBool b) = (if b then ''True'' else ''False'')"
| "py_str (VInt i) = str_int i"
| "py_str (VStr s) = s"

type_synonym input = "string \<Rightarrow> pyval option"

definition dict_get :: "input \<Rightarrow> string \<Rightarrow> pyval" where
  "dict_get inp key = (case inp key of None \<Rightarrow> VNone | Some v \<Rightarrow> v)"

definition dict_get_default :: "input \<Rightarrow> string \<Rightarrow> pyval \<Rightarrow> pyval" where
  "dict_get_default inp key d = (case inp key of None \<Rightarrow> d | Some v \<Rightarrow> v)"

text \<open>
  \<open>int(v)\<close>. On a string it reads ASCII text: blanks around an optional sign and decimal
  digits, single underscores allowed between digits; anything else raises
  \<open>ValueError\<close>. \<open>int(None)\<close> raises \<open>TypeError\<close>. No handler of the tool catches
  either, so they are the faults that \<open>execute\<close> can propagate.
\<close>

datatype fault = IntValueError string | IntTypeError

definition is_space :: "char \<Rightarrow> bool" where
  "is_space c \<longleftrightarrow>
     c \<in> set [CHR 0x09, CHR 0x0A, CHR 0x0B, CHR 0x0C, CHR 0x0D,
               CHR 0x1C, CHR 0x1D, CHR 0x1E, CHR 0x1F, CHR 0x20]"

definition strip :: "string \<Rightarrow> string" where
  "strip s = rev (dropWhile is_space (rev (dropWhile is_space s)))"

definition is_digit :: "char \<Rightarrow> bool" where
  "is_digit c \<longleftrightarrow> c \<in> set ''0123456789''"

definition digit_value :: "char \<Rightarrow> nat" where
  "digit_value c = length (takeWhile (\<lambda>d. d \<noteq> c) ''0123456789'')"

fun digits_value :: "nat \<Rightarrow> string \<Rightarrow> nat option" where
  "digits_value acc [] = None"
| "digits_value acc [c] = (if is_digit c then Some (10 * acc + digit_value c) else None)"
| "digits_value acc (c # d # cs) =
     (if is_digit c
      then digits_value (10 * acc + digit_value c) (if d = CHR ''_'' then cs else d # cs)
      else None)"

definition int_of_str :: "string \<Rightarrow> int option" where
  "int_of_str s =
     (case strip s of
        [] \<Rightarrow> None
      | c # cs \<Rightarrow>
          if c = CHR ''-'' then map_option (\<lambda>n. - int n) (digits_value 0 cs)
          else if c = CHR ''+'' then map_option int (digits_value 0 cs)
          else map_option int (digits_value 0 (c # cs)))"

fun py_int :: "pyval \<Rightarrow> fault + int" where
  "py_int (VInt i) = Inr i"
| "py_int (VBool b) = Inr (if b then 1 else 0)"
| "py_int (VStr s) = (case int_of_str s of None \<Rightarrow> Inl (IntValueError s) | Some i \<Rightarrow> Inr i)"
| "py_int VNone = Inl IntTypeError"


section \<open>The SDK client and the tool object\<close>

text \<open>
  The exceptions the handlers tell apart, each with what the handler reads from it: the
  \<open>message\<close> of a \<open>RateLimitError\<close>, the \<open>status_code\<close> and \<open>message\<close> of a
  \<open>BadRequestError\<close> or of any other \<open>APIStatusError\<close>, and \<open>str(e)\<close> of an
  \<open>APITimeoutError\<close>, of any other \<open>APIConnectionError\<close> and of any other exception.
  The SDK's errors always carry a \<open>message\<close> attribute.
\<close>

datatype exn =
    RateLimitError string
  | APITimeoutError string
  | BadRequestError int string
  | APIStatusError int string
  | APIConnectionError string
  | OtherException string

record research_req =
  rq_input :: string
  rq_preset :: string
  rq_effort :: string
  rq_max_steps :: int

record chat_req =
  cq_model :: string
  cq_system :: string
  cq_user :: string

text \<open>
  One upstream request, with the handle of the client that issued it. The collaborator
  is a pair of functions giving the outcome of \<open>client.responses.create\<close> and of
  \<open>client.chat.completions.create\<close> for a request.
\<close>

datatype call = ResearchCall nat research_req | ChatCall nat chat_req

record sdk =
  responses_create :: "research_req \<Rightarrow> exn + response"
  chat_create :: "chat_req \<Rightarrow> exn + chat_response"

text \<open>
  The tool object: \<open>_api_key\<close>, \<open>_client\<close> (the handle of the live client, if any) and
  the configured defaults; \<open>cfg_timeout\<close> is the text that \<open>str(self.timeout)\<close> prints.
  Two fields keep the history of the SDK clients: how many were constructed (the next
  handle) and which handles were closed.
\<close>

record tool =
  api_key :: "string option"
  client_ref :: "nat option"
  cfg_reasoning_effort :: string
  cfg_max_steps :: int
  cfg_timeout :: string
  constructed :: nat
  closed_handles :: "nat list"

text \<open>The property \<open>client\<close>: lazy construction, \<open>ValueError\<close> without an api key.\<close>

definition client :: "tool \<Rightarrow> exn + nat \<times> tool" where
  "client t =
     (case client_ref t of
        Some h \<Rightarrow> Inr (h, t)
      | None \<Rightarrow>
          (case api_key t of
             None \<Rightarrow> Inl (OtherException ''api_key must be provided for API calls'')
           | Some k \<Rightarrow>
               Inr (constructed t,
                    t\<lparr>client_ref := Some (constructed t), constructed := Suc (constructed t)\<rparr>)))"

text \<open>\<open>close\<close>: closes the SDK client if there is one and forgets it.\<close>

definition close :: "tool \<Rightarrow> tool" where
  "close t =
     (case client_ref t of
        None \<Rightarrow> t
      | Some h \<Rightarrow> t\<lparr>closed_handles := closed_handles t @ [h], client_ref := None\<rparr>)"

section \<open>\<open>execute\<close> and its two attempts\<close>

record tool_result =
  tr_success :: bool
  tr_output :: string
  tr_error :: "string option"

definition failed :: "string \<Rightarrow> string \<Rightarrow> tool_result" where
  "failed out msg = \<lparr>tr_success = False, tr_output = out, tr_error = Some msg\<rparr>"

text \<open>The \<open>except\<close> clauses of \<open>_execute_research\<close>, in their order.\<close>

fun research_failure :: "tool \<Rightarrow> exn \<Rightarrow> tool_result" where
  "research_failure t (RateLimitError m) =
     (let error_msg = ''Rate limited: '' @ m in failed error_msg error_msg)"
| "research_failure t (APITimeoutError s) =
     (let error_msg = ''Research request timed out after '' @ cfg_timeout t @ ''s''
      in failed error_msg error_msg)"
| "research_failure t (BadRequestError code m) =
     (let error_msg = ''Invalid request: '' @ m in failed error_msg error_msg)"
| "research_failure t (APIStatusError code m) =
     (let error_msg = ''API error '' @ str_int code;
          error_msg = (if m \<noteq> [] then error_msg @ '': '' @ m else error_msg)
      in failed error_msg error_msg)"
| "research_failure t (APIConnectionError s) = failed [] (''Connection error: '' @ s)"
| "research_failure t (OtherException s) = failed [] (''Research failed: '' @ s)"

text \<open>
  The \<open>except\<close> clauses of \<open>_execute_chat\<close>: \<open>RateLimitError\<close>, then \<open>APIStatusError\<close>
  (which takes \<open>BadRequestError\<close>, its subclass), then any other exception.
\<close>

fun chat_failure :: "exn \<Rightarrow> tool_result" where
  "chat_failure (RateLimitError m) =
     (let error_msg = ''Chat rate limited: '' @ m in failed error_msg error_msg)"
| "chat_failure (BadRequestError code m) =
     (let error_msg = ''Chat API error '' @ str_int code;
          error_msg = (if m \<noteq> [] then error_msg @ '': '' @ m else error_msg)
      in failed error_msg error_msg)"
| "chat_failure (APIStatusError code m) =
     (let error_msg = ''Chat API error '' @ str_int code;
          error_msg = (if m \<noteq> [] then error_msg @ '': '' @ m else error_msg)
      in failed error_msg error_msg)"
| "chat_failure (APITimeoutError s) = failed [] (''Chat failed: '' @ s)"
| "chat_failure (APIConnectionError s) = failed [] (''Chat failed: '' @ s)"
| "chat_failure (OtherException s) = failed [] (''Chat failed: '' @ s)"

text \<open>
  \<open>query[:100]\<close> in the debug message, the first statement inside both \<open>try\<close> blocks:
  a query that is not a string raises \<open>TypeError\<close> there.
\<close>

fun not_subscriptable :: "pyval \<Rightarrow> string" where
  "not_subscriptable VNone = [CHR 0x27] @ ''NoneType'' @ [CHR 0x27] @ '' object is not subscriptable''"
| "not_subscriptable (VBool b) = [CHR 0x27] @ ''bool'' @ [CHR 0x27] @ '' object is not subscriptable''"
| "not_subscriptable (VInt i) = [CHR 0x27] @ ''int'' @ [CHR 0x27] @ '' object is not subscriptable''"
| "not_subscriptable (VStr s) = []"

text \<open>
  The arguments of \<open>client.responses.create\<close> in \<open>_make_research_request\<close> and of
  \<open>client.chat.completions.create\<close> in \<open>_make_chat_request\<close>.
\<close>

definition research_request :: "string \<Rightarrow> string \<Rightarrow> int \<Rightarrow> string \<Rightarrow> research_req" where
  "research_request query reasoning_effort max_steps instructions =
     (let combined_input =
            (if instructions \<noteq> [] then instructions @ nl @ nl @ ''Research question: '' @ query
             else query)
      in \<lparr>rq_input = combined_input, rq_preset = ''pro-search'',
          rq_effort = reasoning_effort, rq_max_steps = max_steps\<rparr>)"

definition chat_request :: "string \<Rightarrow> string \<Rightarrow> string \<Rightarrow> chat_req" where
  "chat_request query model instructions =
     \<lparr>cq_model = model, cq_system = instructions, cq_user = query\<rparr>"

definition make_research_request ::
  "sdk \<Rightarrow> tool \<Rightarrow> string \<Rightarrow> string \<Rightarrow> int \<Rightarrow> string \<Rightarrow> (exn + response) \<times> tool \<times> call list" where
  "make_research_request api t query reasoning_effort max_steps instructions =
     (let req = research_request query reasoning_effort max_steps instructions
      in case client t of
           Inl e \<Rightarrow> (Inl e, t, [])
         | Inr (h, t') \<Rightarrow> (responses_create api req, t', [ResearchCall h req]))"

definition make_chat_request ::
  "sdk \<Rightarrow> tool \<Rightarrow> string \<Rightarrow> string \<Rightarrow> string \<Rightarrow> (exn + chat_response) \<times> tool \<times> call list" where
  "make_chat_request api t query model instructions =
     (let req = chat_request query model instructions
      in case client t of
           Inl e \<Rightarrow> (Inl e, t, [])
         | Inr (h, t') \<Rightarrow> (chat_create api req, t', [ChatCall h req]))"

definition execute_research ::
  "sdk \<Rightarrow> tool \<Rightarrow> pyval \<Rightarrow> string \<Rightarrow> int \<Rightarrow> string \<Rightarrow> tool_result \<times> tool \<times> call list" where
  "execute_research api t query reasoning_effort max_steps instructions =
     (case query of
        VStr q \<Rightarrow>
          (case make_research_request api t q reasoning_effort max_steps instructions of
             (Inl e, t', calls) \<Rightarrow> (research_failure t e, t', calls)
           | (Inr resp, t', calls) \<Rightarrow>
               (\<lparr>tr_success = True, tr_output = format_structured_output (parse_response resp),
                 tr_error = None\<rparr>, t', calls))
      | _ \<Rightarrow> (research_failure t (OtherException (not_subscriptable query)), t, []))"

definition execute_chat ::
  "sdk \<Rightarrow> tool \<Rightarrow> pyval \<Rightarrow> string \<Rightarrow> string \<Rightarrow> string \<Rightarrow> tool_result \<times> tool \<times> call list" where
  "execute_chat api t query model instructions fallback_note =
     (case query of
        VStr q \<Rightarrow>
          (case make_chat_request api t q model instructions of
             (Inl e, t', calls) \<Rightarrow> (chat_failure e, t', calls)
           | (Inr resp, t', calls) \<Rightarrow>
               (let out = format_structured_output (chat_result resp model);
                    out = (if fallback_note \<noteq> [] then fallback_note @ nl @ nl @ out else out)
                in (\<lparr>tr_success = True, tr_output = out, tr_error = None\<rparr>, t', calls)))
      | _ \<Rightarrow> (chat_failure (OtherException (not_subscriptable query)), t, []))"

text \<open>The parameters that \<open>execute\<close> extracts from its input.\<close>

definition mode_of :: "input \<Rightarrow> string" where
  "mode_of inp = py_str (dict_get_default inp ''mode'' (VStr ''auto''))"

definition model_of :: "input \<Rightarrow> string" where
  "model_of inp = py_str (dict_get_default inp ''model'' (VStr ''sonar-pro''))"

definition reasoning_effort_of :: "tool \<Rightarrow> input \<Rightarrow> string" where
  "reasoning_effort_of t inp =
     (if dict_get inp ''reasoning_effort'' \<noteq> VNone then py_str (dict_get inp ''reasoning_effort'')
      else cfg_reasoning_effort t)"

definition max_steps_of :: "tool \<Rightarrow> input \<Rightarrow> fault + int" where
  "max_steps_of t inp =
     (if dict_get inp ''max_steps'' \<noteq> VNone then py_int (dict_get inp ''max_steps'')
      else Inr (cfg_max_steps t))"

definition instructions_of :: "input \<Rightarrow> string" where
  "instructions_of inp =
     (if truthy (dict_get inp ''instructions'') then py_str (dict_get inp ''instructions'')
      else ''Provide thorough, well-researched answers with citations.'')"

definition should_fallback :: "string \<Rightarrow> bool" where
  "should_fallback error_msg =
     list_ex (\<lambda>trigger. contains trigger (lower error_msg))
       [''rate limit'', ''quota'', ''429'', ''insufficient'']"

definition fallback_note_of :: "string \<Rightarrow> string" where
  "fallback_note_of error_msg = ''(Fallback from Research API: '' @ error_msg @ '')''"

text \<open>
  \<open>execute\<close> returns the tool result, the tool object after the call and the upstream
  requests it issued, in order; or the fault that \<open>int(input["max_steps"])\<close> raises,
  which happens before the mode is looked at.
\<close>

definition execute :: "sdk \<Rightarrow> tool \<Rightarrow> input \<Rightarrow> fault + tool_result \<times> tool \<times> call list" where
  "execute api t inp =
     (let query = dict_get inp ''query''
      in if \<not> truthy query
         then Inr (\<lparr>tr_success = False, tr_output = [],
                    tr_error = Some ''Missing required parameter: query''\<rparr>, t, [])
         else
           let mode = mode_of inp;
               model = model_of inp;
               reasoning_effort = reasoning_effort_of t inp
           in case max_steps_of t inp of
                Inl f \<Rightarrow> Inl f
              | Inr max_steps \<Rightarrow>
                  let instructions = instructions_of inp
                  in if mode = ''chat''
                     then Inr (execute_chat api t query model instructions [])
                     else if mode = ''research''
                     then Inr (execute_research api t query reasoning_effort max_steps instructions)
                     else
                       (case execute_research api t query reasoning_effort max_steps instructions of
                          (result, t1, calls1) \<Rightarrow>
                            if \<not> tr_success result \<and> tr_error result \<noteq> None
                            then
                              let error_msg = (case tr_error result of None \<Rightarrow> [] | Some m \<Rightarrow> m)
                              in if should_fallback error_msg
                                 then
                                   (case execute_chat api t1 query model instructions
                                           (fallback_note_of error_msg) of
                                      (result2, t2, calls2) \<Rightarrow> Inr (result2, t2, calls1 @ calls2))
                                 else Inr (result, t1, calls1)
                            else Inr (result, t1, calls1)))"

section \<open>The preset-based module\<close>

text \<open>
  \<open>_categorize_url\<close> and \<open>_parse_response\<close> of the module that offers preset-based
  single-mode execution, embedded from that file with its own rule tables.
\<close>

definition preset_categorize_url :: "string \<Rightarrow> category" where
  "preset_categorize_url url =
     (let url_lower = lower url
      in if list_ex (\<lambda>domain. contains domain url_lower)
              [''arxiv.org'', ''doi.org'', ''pubmed'', ''springer.com'', ''nature.com'',
               ''sciencedirect'', ''.edu/'', ''acm.org'', ''ieee.org'', ''scholar.google'',
               ''ncbi.nlm.nih'', ''plos.org'', ''frontiersin.org'', ''biorxiv.org'',
               ''medrxiv.org'', ''researchgate.net'', ''semanticscholar.org'']
         then Academic
         else if list_ex (\<lambda>domain. contains domain url_lower)
              [''docs.'', ''/docs/'', ''documentation'', ''readme'', ''github.com'',
               ''gitlab.com'', ''api.'', ''developer.'', ''devdocs'']
         then Docs
         else if list_ex (\<lambda>domain. contains domain url_lower)
              [''techcrunch'', ''wired.com'', ''theverge'', ''arstechnica'', ''bbc.'',
               ''cnn.'', ''reuters.'', ''nytimes'', ''wsj.com'', ''bloomberg.'', ''/news/'',
               ''/blog/'', ''medium.com'', ''substack.com'', ''venturebeat'', ''thenextweb'']
         then News
         else Other)"

definition preset_add_citation :: "string option \<Rightarrow> string option \<Rightarrow> walk \<Rightarrow> walk" where
  "preset_add_citation url title w =
     (case url of
        None \<Rightarrow> w
      | Some u \<Rightarrow>
          if u \<noteq> [] \<and> u \<notin> seen_urls w
          then w\<lparr>seen_urls := insert u (seen_urls w),
                 citations := citations w @
                   [\<lparr>cit_url = u,
                     cit_title = (if truthy_str title \<and> title \<noteq> url then the title
                                  else ''Untitled''),
                     cit_category = preset_categorize_url u\<rparr>]\<rparr>
          else w)"

definition preset_walk_content_item :: "walk \<Rightarrow> content_item \<Rightarrow> walk" where
  "preset_walk_content_item w ci =
     (if ci_type ci = Some ''output_text'' \<or> ci_type ci = Some ''text''
      then
        let text = getattr_or (ci_text ci) (Some []);
            w1 = (if truthy_str text then w\<lparr>text_parts := text_parts w @ [the text]\<rparr> else w);
            annotations = (case ci_annotations ci of None \<Rightarrow> [] | Some as \<Rightarrow> as)
        in foldl (\<lambda>w a. let url = getattr_none (an_url a);
                             title = getattr_or (an_title a) url
                         in preset_add_citation url title w) w1 annotations
      else w)"

definition preset_walk_item :: "walk \<Rightarrow> output_item \<Rightarrow> walk" where
  "preset_walk_item w item =
     (if oi_type item = Some ''message'' then foldl preset_walk_content_item w (oi_content item)
      else if oi_type item = Some ''search_results''
        then foldl (\<lambda>w r. let url = getattr_none (sr_url r);
                               title = (if truthy_str (getattr_none (sr_title r))
                                        then getattr_none (sr_title r)
                                        else getattr_or (sr_name r) url)
                           in preset_add_citation url title w) w (oi_results item)
      else if oi_type item = Some ''fetch_url_results''
        then foldl (\<lambda>w r. let url = getattr_none (sr_url r);
                               title = (if truthy_str (getattr_none (sr_title r))
                                        then getattr_none (sr_title r)
                                        else url)
                           in preset_add_citation url title w) w (oi_results item)
      else w)"

definition preset_parse_response :: "response \<Rightarrow> result" where
  "preset_parse_response resp =
     (let w = foldl preset_walk_item \<lparr>text_parts = [], citations = [], seen_urls = {}\<rparr>
                (r_output resp)
      in \<lparr>res_content = join nl (text_parts w),
          res_citations = citations w,
          res_usage =
            (case r_usage resp of
               None \<Rightarrow> []
             | Some u \<Rightarrow>
                 [(''input_tokens'', or_zero (input_tokens u)),
                  (''output_tokens'', or_zero (output_tokens u)),
                  (''total_tokens'', or_zero (input_tokens u) + or_zero (output_tokens u))]),
          res_model = r_model resp,
          res_status = r_status resp,
          res_error = r_error resp\<rparr>)"

section \<open>Candidate citations\<close>

text \<open>
  For the statement of the de-duplication property: every candidate the walk meets, as
  the pair of its \<open>url\<close> and \<open>title\<close> values, in walk order over all item kinds.
  \<open>accepted\<close> keeps the candidates with a non-empty url, each with the title it would
  be stored under, and \<open>first_occurrences\<close> keeps the first occurrence of every element
  of a list, in order (\<open>remdups\<close> keeps the last one).
\<close>

definition annotation_candidate :: "annotation \<Rightarrow> string option \<times> string option" where
  "annotation_candidate a =
     (getattr_none (an_url a), getattr_or (an_title a) (getattr_none (an_url a)))"

definition search_candidate :: "source_result \<Rightarrow> string option \<times> string option" where
  "search_candidate r =
     (getattr_none (sr_url r),
      if truthy_str (getattr_none (sr_title r)) then getattr_none (sr_title r)
      else getattr_or (sr_name r) (getattr_none (sr_url r)))"

definition fetch_candidate :: "source_result \<Rightarrow> string option \<times> string option" where
  "fetch_candidate r =
     (getattr_none (sr_url r),
      if truthy_str (getattr_none (sr_title r)) then getattr_none (sr_title r)
      else getattr_none (sr_url r))"

definition content_candidates :: "content_item \<Rightarrow> (string option \<times> string option) list" where
  "content_candidates ci =
     (if ci_type ci = Some ''output_text'' \<or> ci_type ci = Some ''text''
      then map annotation_candidate (case ci_annotations ci of None \<Rightarrow> [] | Some as \<Rightarrow> as)
      else [])"

definition item_candidates :: "output_item \<Rightarrow> (string option \<times> string option) list" where
  "item_candidates item =
     (if oi_type item = Some ''message'' then concat (map content_candidates (oi_content item))
      else if oi_type item = Some ''search_results'' then map search_candidate (oi_results item)
      else if oi_type item = Some ''fetch_url_results'' then map fetch_candidate (oi_results item)
      else [])"

definition candidates :: "response \<Rightarrow> (string option \<times> string option) list" where
  "candidates resp = concat (map item_candidates (r_output resp))"

fun accepted :: "(string option \<times> string option) list \<Rightarrow> (string \<times> string) list" where
  "accepted [] = []"
| "accepted ((None, title) # cs) = accepted cs"
| "accepted ((Some u, title) # cs) =
     (if u = [] then accepted cs else (u, display_title title (Some u)) # accepted cs)"

definition first_occurrences :: "'a list \<Rightarrow> 'a list" where
  "first_occurrences xs = rev (remdups (rev xs))"

text \<open>
  \<open>citations_of acc\<close> is the citation list that first-occurrence-wins de-duplication
  yields for the accepted candidates \<open>acc\<close>: one citation per url, in the order of the
  first occurrences, with the title of the first candidate that has the url (\<open>map_of\<close>
  finds the first pair with a key). \<open>tracks w cs\<close> says that the accumulators \<open>w\<close> hold
  exactly this for the candidates \<open>cs\<close> met so far.
\<close>

definition citations_of :: "(string \<times> string) list \<Rightarrow> citation list" where
  "citations_of acc =
     map (\<lambda>u. \<lparr>cit_url = u, cit_title = the (map_of acc u), cit_category = categorize_url u\<rparr>)
       (first_occurrences (map fst acc))"

definition tracks :: "walk \<Rightarrow> (string option \<times> string option) list \<Rightarrow> bool" where
  "tracks w cs \<longleftrightarrow>
     citations w = citations_of (accepted cs) \<and> seen_urls w = fst ` set (accepted cs)"

section \<open>The references section, as a list of lines\<close>

text \<open>
  For the statement of the formatter's property: \<open>reference_entry\<close> is the pair of lines
  of one numbered citation (nothing when its url is empty), \<open>reference_section\<close> is the
  block of one category, built from the citations of that category with their positions
  in the whole list, counted from 1, and \<open>usage_line\<close> is the trailing token line.
\<close>

definition reference_entry :: "nat \<times> citation \<Rightarrow> string list" where
  "reference_entry ic =
     (if cit_url (snd ic) = [] then []
      else [''- ['' @ str_nat (fst ic) @ ''] '' @ cit_title (snd ic),
            ''  URL: '' @ cit_url (snd ic)])"

definition reference_section :: "citation list \<Rightarrow> category \<Rightarrow> string \<Rightarrow> string list" where
  "reference_section cs cat name =
     (let entries = filter (\<lambda>ic. cit_category (snd ic) = cat) (enumerate 1 cs)
      in if entries = [] then [] else (nl @ name) # concat (map reference_entry entries))"

definition usage_line :: "result \<Rightarrow> string list" where
  "usage_line r =
     (if res_usage r = [] then []
      else [nl @ nl @ ''---'' @ nl @ ''Tokens: '' @
            (case map_of (res_usage r) ''total_tokens'' of
               None \<Rightarrow> ''N/A''
             | Some n \<Rightarrow> str_int n)])"

section \<open>Example responses, results, tools and collaborators\<close>

text \<open>
  A response whose single message carries two annotations with the same url \<open>u\<close> and
  the titles \<open>t1\<close> and \<open>t2\<close>, in this order.
\<close>

definition two_annotations :: "string \<Rightarrow> string \<Rightarrow> string \<Rightarrow> output_item list" where
  "two_annotations u t1 t2 =
     [\<lparr>oi_type = Some ''message'',
       oi_content =
         [\<lparr>ci_type = Some ''output_text'', ci_text = Str ''Text.'',
           ci_annotations =
             Some [\<lparr>an_url = Str u, an_title = Str t1\<rparr>, \<lparr>an_url = Str u, an_title = Str t2\<rparr>]\<rparr>],
       oi_results = []\<rparr>]"

definition example_response :: response where
  "example_response =
     \<lparr>r_model = ''sonar'', r_status = ''completed'', r_error = None,
       r_output = two_annotations ''https://example.com/same'' ''Same URL'' ''Same URL Again'',
       r_usage = None\<rparr>"

text \<open>
  A response in which the three item kinds repeat urls: a message annotation for
  \<open>a\<close>, search results for \<open>a\<close> and \<open>b\<close>, fetched results for \<open>b\<close> and \<open>c\<close>.
\<close>

definition cross_kind_response :: response where
  "cross_kind_response =
     \<lparr>r_model = ''sonar'', r_status = ''completed'', r_error = None,
       r_output =
         [\<lparr>oi_type = Some ''message'',
           oi_content =
             [\<lparr>ci_type = Some ''output_text'', ci_text = Str ''Text.'',
               ci_annotations =
                 Some [\<lparr>an_url = Str ''https://example.com/a'', an_title = Str ''First''\<rparr>]\<rparr>],
           oi_results = []\<rparr>,
          \<lparr>oi_type = Some ''search_results'', oi_content = [],
           oi_results =
             [\<lparr>sr_url = Str ''https://example.com/a'', sr_title = Str ''Second'',
               sr_name = Missing\<rparr>,
              \<lparr>sr_url = Str ''https://example.com/b'', sr_title = Null,
               sr_name = Str ''Named''\<rparr>]\<rparr>,
          \<lparr>oi_type = Some ''fetch_url_results'', oi_content = [],
           oi_results =
             [\<lparr>sr_url = Str ''https://example.com/b'', sr_title = Str ''Third'',
               sr_name = Missing\<rparr>,
              \<lparr>sr_url = Str ''https://example.com/c'', sr_title = Missing,
               sr_name = Missing\<rparr>]\<rparr>],
       r_usage = None\<rparr>"

text \<open>
  Two results to format: the two citations \<open>a\<close> (academic) and \<open>b\<close> (news), and the
  same with a citation without url between them.
\<close>

definition example_pair :: result where
  "example_pair =
     \<lparr>res_content = ''X'',
       res_citations =
         [\<lparr>cit_url = ''a'', cit_title = ''A'', cit_category = Academic\<rparr>,
          \<lparr>cit_url = ''b'', cit_title = ''B'', cit_category = News\<rparr>],
       res_usage = [], res_model = ''sonar'', res_status = ''completed'', res_error = None\<rparr>"

definition example_result :: result where
  "example_result =
     \<lparr>res_content = ''X'',
       res_citations =
         [\<lparr>cit_url = ''a'', cit_title = ''A'', cit_category = Academic\<rparr>,
          \<lparr>cit_url = [], cit_title = ''Lost'', cit_category = Academic\<rparr>,
          \<lparr>cit_url = ''b'', cit_title = ''B'', cit_category = News\<rparr>],
       res_usage = [], res_model = ''sonar'', res_status = ''completed'', res_error = None\<rparr>"

definition example_tool :: tool where
  "example_tool =
     \<lparr>api_key = Some ''test-key'', client_ref = None, cfg_reasoning_effort = ''medium'',
       cfg_max_steps = 5, cfg_timeout = ''120.0'', constructed = 0, closed_handles = []\<rparr>"

definition example_research_response :: response where
  "example_research_response =
     \<lparr>r_model = ''sonar'', r_status = ''completed'', r_error = None,
       r_output =
         [\<lparr>oi_type = Some ''message'',
           oi_content = [\<lparr>ci_type = Some ''output_text'', ci_text = Str ''Result content'',
                          ci_annotations = Some []\<rparr>],
           oi_results = []\<rparr>],
       r_usage = None\<rparr>"

definition example_chat_response :: chat_response where
  "example_chat_response =
     \<lparr>ch_choices = [\<lparr>m_content = Some ''Chat answer'', m_citations = None\<rparr>],
       ch_usage = None\<rparr>"

text \<open>
  Four collaborators: one that answers both kinds of request, one whose deep-research
  endpoint is rate limited (status 429) while chat answers, one whose deep-research
  endpoint rejects the request with an invalid schema, and one where both endpoints are
  rate limited.
\<close>

definition ok_sdk :: sdk where
  "ok_sdk =
     \<lparr>responses_create = (\<lambda>req. Inr example_research_response),
       chat_create = (\<lambda>req. Inr example_chat_response)\<rparr>"

definition rate_limited_sdk :: sdk where
  "rate_limited_sdk =
     \<lparr>responses_create = (\<lambda>req. Inl (RateLimitError ''429 Too Many Requests'')),
       chat_create = (\<lambda>req. Inr example_chat_response)\<rparr>"

text \<open>
  A collaborator whose deep-research endpoint answers with the status error 429 while
  chat answers.
\<close>

definition status_429_sdk :: sdk where
  "status_429_sdk =
     \<lparr>responses_create = (\<lambda>req. Inl (APIStatusError 429 ''Too Many Requests'')),
       chat_create = (\<lambda>req. Inr example_chat_response)\<rparr>"

definition invalid_schema_sdk :: sdk where
  "invalid_schema_sdk =
     \<lparr>responses_create = (\<lambda>req. Inl (BadRequestError 400 ''invalid schema'')),
       chat_create = (\<lambda>req. Inr example_chat_response)\<rparr>"


definition example_input :: input where
  "example_input = [''query'' \<mapsto> VStr ''What is AI?'']"

text \<open>
  A URL that spells \<open>substack.com\<close> with the Kelvin sign U+212A in place of \<open>k\<close>.
\<close>

definition kelvin_url :: string where
  "kelvin_url = ''https://newsletter.substac'' @ [CHR 0xE2, CHR 0x84, CHR 0xAA] @ ''.com/p/1''"

definition default_instructions :: string where
  "default_instructions = ''Provide thorough, well-researched answers with citations.''"

definition example_research_req :: research_req where
  "example_research_req =
     \<lparr>rq_input = default_instructions @ nl @ nl @ ''Research question: What is AI?'',
       rq_preset = ''pro-search'', rq_effort = ''medium'', rq_max_steps = 5\<rparr>"

definition example_chat_req :: chat_req where
  "example_chat_req =
     \<lparr>cq_model = ''sonar-pro'', cq_system = default_instructions, cq_user = ''What is AI?''\<rparr>"

text \<open>
  A tool whose client is live, the same tool after \<open>close\<close> and a new access to
  \<open>client\<close>, and the outcome of a successful chat fallback after a rate-limited
  deep-research attempt.
\<close>

definition live_tool :: tool where
  "live_tool = example_tool\<lparr>client_ref := Some 0, constructed := 1\<rparr>"

definition reopened_tool :: tool where
  "reopened_tool =
     example_tool\<lparr>client_ref := Some 1, constructed := 2, closed_handles := [0]\<rparr>"

definition fallback_result :: tool_result where
  "fallback_result =
     \<lparr>tr_success = True,
       tr_output = ''(Fallback from Research API: Rate limited: 429 Too Many Requests)''
                   @ nl @ nl @ ''Chat answer'',
       tr_error = None\<rparr>"

section \<open>Facts about the string operations\<close>

lemma contains_sublist: "contains sub s = sublist sub s"
  by (induction s) (simp_all add: sublist_Cons_right)

lemma lower_ascii_cons: "\<not> digit7 c \<Longrightarrow> lower (c # cs) = lower_char c # lower cs"
proof (cases cs)
  case Nil
  then show ?thesis by simp
next
  case (Cons b cs')
  assume a: "\<not> digit7 c"
  then have ne: "c \<noteq> CHR 0xE2" "c \<noteq> CHR 0xC4" by auto
  show ?thesis
  proof (cases cs')
    case Nil
    with Cons ne show ?thesis by simp
  next
    case (Cons c' cs'')
    with \<open>cs = b # cs'\<close> ne show ?thesis by simp
  qed
qed

lemma lower_plain_append: "plain d \<Longrightarrow> lower (d @ ss) = d @ lower ss"
  by (induction d) (simp_all add: plain_def lower_ascii_cons)

lemma prefix_lower: "plain d \<Longrightarrow> prefix d s \<Longrightarrow> prefix d (lower s)"
  by (auto simp: prefix_def lower_plain_append)

lemma plain_head: "plain d \<Longrightarrow> prefix d (c # cs) \<Longrightarrow> d \<noteq> [] \<Longrightarrow> \<not> digit7 c"
  by (cases d) (simp_all add: plain_def)

lemma sublist_lower:
  assumes "plain d" and "d \<noteq> []"
  shows "sublist d s \<Longrightarrow> sublist d (lower s)"
proof (induction s rule: lower.induct)
  case (1 a b c cs)
  let ?s = "a # b # c # cs"
  from assms have nb: "\<not> prefix d (x # xs)" if "digit7 x" for x xs
    using that plain_head by blast
  show ?case
  proof (cases "prefix d ?s")
    case True
    with assms(1) show ?thesis by (meson prefix_imp_sublist prefix_lower)
  next
    case np: False
    with 1(4) have tail: "sublist d (b # c # cs)" by (simp add: sublist_Cons_right)
    show ?thesis
    proof (cases "a = CHR 0xE2 \<and> b = CHR 0x84 \<and> c = CHR 0xAA")
      case True
      with tail nb [of b] nb [of c] have "sublist d cs" by (simp add: sublist_Cons_right)
      with True 1(1) have "sublist d (lower cs)" by simp
      with True show ?thesis by (simp add: sublist_Cons_right)
    next
      case ne: False
      show ?thesis
      proof (cases "a = CHR 0xC4 \<and> b = CHR 0xB0")
        case True
        with tail nb [of b] have "sublist d (c # cs)" by (simp add: sublist_Cons_right)
        with True ne 1(2) have "sublist d (lower (c # cs))" by simp
        with True ne show ?thesis by (simp add: sublist_Cons_right)
      next
        case False
        with ne tail 1(3) have "sublist d (lower (b # c # cs))" by simp
        with False ne show ?thesis by (auto simp: sublist_Cons_right)
      qed
    qed
  qed
next
  case (2 a b)
  from assms have nb: "\<not> prefix d (x # xs)" if "digit7 x" for x xs
    using that plain_head by blast
  show ?case
  proof (cases "prefix d [a, b]")
    case True
    with assms(1) show ?thesis by (meson prefix_imp_sublist prefix_lower)
  next
    case False
    with 2 have t: "sublist d [b]" by (simp add: sublist_Cons_right)
    with assms(2) have p: "prefix d [b]" by (simp add: sublist_Cons_right)
    with nb [of b] have "\<not> digit7 b" by blast
    then have "b \<noteq> CHR 0xB0" by auto
    moreover from p assms(1) have "prefix d (lower [b])" by (rule prefix_lower [rotated])
    ultimately show ?thesis by (auto simp: sublist_Cons_right)
  qed
next
  case (3 a)
  with assms(2) have "prefix d [a]" by (simp add: sublist_Cons_right)
  with assms(1) show ?case by (meson prefix_imp_sublist prefix_lower)
next
  case 4
  with assms(2) show ?case by simp
qed

lemma contains_lower:
  assumes "contains d s" and "plain d"
  shows "contains d (lower s)"
proof (cases "d = []")
  case True
  then show ?thesis by (simp add: contains_sublist)
next
  case False
  with assms show ?thesis by (simp add: contains_sublist sublist_lower)
qed

lemma str_nat_digits: "set (str_nat n) \<subseteq> set ''0123456789''"
proof (induction n rule: str_nat.induct)
  case (1 n)
  have d: "digit_char k \<in> set ''0123456789''" if "k < 10" for k
  proof -
    from that have "k \<in> {0, 1, 2, 3, 4, 5, 6, 7, 8, 9}" by auto
    then show ?thesis by (auto simp: digit_char_def)
  qed
  show ?case
  proof (cases "n < 10")
    case True
    then show ?thesis using d [of n] by (subst str_nat.simps) simp
  next
    case False
    then show ?thesis using 1 d [of "n mod 10"] by (subst str_nat.simps) simp
  qed
qed

section \<open>The classifier: priority order and the named examples\<close>

lemma categorize_url_hits:
  "categorize_url url =
     (if hits academic_domains url then Academic
      else if hits docs_patterns url then Docs
      else if hits news_domains url then News
      else Other)"
  by (simp add: categorize_url_def hits_def)

lemma hits_entry:
  assumes "contains d url" and "plain d" and "d \<in> set table"
  shows "hits table url"
proof -
  from assms(1,2) have "contains d (lower url)" by (rule contains_lower)
  with assms(3) show ?thesis unfolding hits_def list_ex_iff by blast
qed

lemma hits_arxiv: "contains ''arxiv.org'' url \<Longrightarrow> hits academic_domains url"
proof (erule hits_entry)
  show "plain ''arxiv.org''" by code_simp
  show "''arxiv.org'' \<in> set academic_domains" by (simp add: academic_domains_def)
qed

lemma hits_github: "contains ''github.com'' url \<Longrightarrow> hits docs_patterns url"
proof (erule hits_entry)
  show "plain ''github.com''" by code_simp
  show "''github.com'' \<in> set docs_patterns" by (simp add: docs_patterns_def)
qed

lemma hits_techcrunch: "contains ''techcrunch'' url \<Longrightarrow> hits news_domains url"
proof (erule hits_entry)
  show "plain ''techcrunch''" by code_simp
  show "''techcrunch'' \<in> set news_domains" by (simp add: news_domains_def)
qed

text \<open>
  C4 (as the code has it). The classifier is a function of the lower-cased URL alone
  (\<open>str.lower\<close> on Unicode text), so it is total, deterministic and case-insensitive on
  arbitrary strings; the tables are tried in the order
  academic, docs, news and the first table with an entry occurring in the lower-cased URL
  decides. A URL containing \<open>arxiv.org\<close> is academic. A URL containing \<open>github.com\<close> is
  docs when no academic entry occurs in it, a URL containing \<open>techcrunch\<close> is news when
  no academic and no docs entry occurs in it, and a URL in which no entry of any table
  occurs is other.
\<close>

theorem categorize_url_priority:
  "(lower u = lower v \<longrightarrow> categorize_url u = categorize_url v)
   \<and> categorize_url u =
       (if hits academic_domains u then Academic
        else if hits docs_patterns u then Docs
        else if hits news_domains u then News
        else Other)
   \<and> (contains ''arxiv.org'' u \<longrightarrow> categorize_url u = Academic)
   \<and> (contains ''github.com'' u \<and> \<not> hits academic_domains u \<longrightarrow> categorize_url u = Docs)
   \<and> (contains ''techcrunch'' u \<and> \<not> hits academic_domains u \<and> \<not> hits docs_patterns u
        \<longrightarrow> categorize_url u = News)
   \<and> (\<not> hits academic_domains u \<and> \<not> hits docs_patterns u \<and> \<not> hits news_domains u
        \<longrightarrow> categorize_url u = Other)"
proof -
  have ci: "lower u = lower v \<longrightarrow> categorize_url u = categorize_url v"
    by (simp add: categorize_url_def)
  have arxiv: "contains ''arxiv.org'' u \<longrightarrow> categorize_url u = Academic"
    using hits_arxiv [of u] by (simp add: categorize_url_hits)
  have github:
    "contains ''github.com'' u \<and> \<not> hits academic_domains u \<longrightarrow> categorize_url u = Docs"
    using hits_github [of u] by (simp add: categorize_url_hits)
  have techcrunch:
    "contains ''techcrunch'' u \<and> \<not> hits academic_domains u \<and> \<not> hits docs_patterns u
       \<longrightarrow> categorize_url u = News"
    using hits_techcrunch [of u] by (simp add: categorize_url_hits)
  have other:
    "\<not> hits academic_domains u \<and> \<not> hits docs_patterns u \<and> \<not> hits news_domains u
       \<longrightarrow> categorize_url u = Other"
    by (simp add: categorize_url_hits)
  from ci categorize_url_hits [of u] arxiv github techcrunch other show ?thesis
    by blast
qed

text \<open>
  The classifier on five URLs: an upper-case and a lower-case spelling of one arXiv URL,
  a GitHub URL, a TechCrunch URL, a URL that matches no table, and a URL whose lower-cased
  text contains \<open>substack.com\<close> only because the Kelvin sign lower-cases to \<open>k\<close>.
\<close>

theorem categorize_url_priority_witness:
  "categorize_url ''HTTPS://ArXiv.ORG/abs/1706.03762'' = categorize_url ''https://arxiv.org/abs/1706.03762''
   \<and> categorize_url ''https://arxiv.org/abs/1706.03762'' = Academic
   \<and> categorize_url ''https://github.com/python/cpython'' = Docs
   \<and> categorize_url ''https://techcrunch.com/2024/ai'' = News
   \<and> categorize_url ''https://example.com/page'' = Other
   \<and> categorize_url kelvin_url = News"
proof -
  have kh: "\<not> hits academic_domains kelvin_url" "\<not> hits docs_patterns kelvin_url"
      "hits news_domains kelvin_url"
    by code_simp+
  have w6: "categorize_url kelvin_url = News"
    using categorize_url_priority [where u = kelvin_url, THEN conjunct2, THEN conjunct1]
    by (simp only: kh if_True if_False)
  have ci: "lower ''HTTPS://ArXiv.ORG/abs/1706.03762'' = lower ''https://arxiv.org/abs/1706.03762''"
    by code_simp
  have a: "contains ''arxiv.org'' ''https://arxiv.org/abs/1706.03762''"
    by code_simp
  have g: "contains ''github.com'' ''https://github.com/python/cpython''
           \<and> \<not> hits academic_domains ''https://github.com/python/cpython''"
    by code_simp
  have t: "contains ''techcrunch'' ''https://techcrunch.com/2024/ai''
           \<and> \<not> hits academic_domains ''https://techcrunch.com/2024/ai''
           \<and> \<not> hits docs_patterns ''https://techcrunch.com/2024/ai''"
    by code_simp
  have n: "\<not> hits academic_domains ''https://example.com/page''
           \<and> \<not> hits docs_patterns ''https://example.com/page''
           \<and> \<not> hits news_domains ''https://example.com/page''"
    by code_simp
  have w1: "categorize_url ''HTTPS://ArXiv.ORG/abs/1706.03762'' = categorize_url ''https://arxiv.org/abs/1706.03762''"
    by (rule categorize_url_priority [THEN conjunct1, THEN mp, OF ci])
  have w2: "categorize_url ''https://arxiv.org/abs/1706.03762'' = Academic"
    by (rule categorize_url_priority
        [THEN conjunct2, THEN conjunct2, THEN conjunct1, THEN mp, OF a])
  have w3: "categorize_url ''https://github.com/python/cpython'' = Docs"
    by (rule categorize_url_priority
        [THEN conjunct2, THEN conjunct2, THEN conjunct2, THEN conjunct1, THEN mp, OF g])
  have w4: "categorize_url ''https://techcrunch.com/2024/ai'' = News"
    by (rule categorize_url_priority
        [THEN conjunct2, THEN conjunct2, THEN conjunct2, THEN conjunct2, THEN conjunct1,
          THEN mp, OF t])
  have w5: "categorize_url ''https://example.com/page'' = Other"
    by (rule categorize_url_priority
        [THEN conjunct2, THEN conjunct2, THEN conjunct2, THEN conjunct2, THEN conjunct2,
          THEN mp, OF n])
  from w1 w2 w3 w4 w5 w6 show ?thesis by (intro conjI)
qed

text \<open>
  C4 as worded does not hold: a URL that contains \<open>github.com\<close> and also an academic
  entry is academic, not docs, and a URL that contains \<open>techcrunch\<close> and also a docs
  entry is docs, not news.
\<close>

theorem categorize_url_github_counterexample:
  "contains ''github.com'' ''https://github.com/mit.edu/course''
   \<and> categorize_url ''https://github.com/mit.edu/course'' = Academic
   \<and> contains ''techcrunch'' ''https://api.techcrunch.com/v1''
   \<and> categorize_url ''https://api.techcrunch.com/v1'' = Docs"
  by code_simp

section \<open>De-duplication of citations\<close>

lemma accepted_append: "accepted (xs @ ys) = accepted xs @ accepted ys"
  by (induction xs rule: accepted.induct) auto

lemma first_occurrences_snoc:
  "first_occurrences (xs @ [x]) =
     (if x \<in> set xs then first_occurrences xs else first_occurrences xs @ [x])"
  by (simp add: first_occurrences_def)

lemma set_first_occurrences: "set (first_occurrences xs) = set xs"
  by (simp add: first_occurrences_def)

lemma distinct_first_occurrences: "distinct (first_occurrences xs)"
  by (simp add: first_occurrences_def)

lemma citations_of_snoc:
  "citations_of (acc @ [(u, t)]) =
     (if u \<in> fst ` set acc then citations_of acc
      else citations_of acc @ [\<lparr>cit_url = u, cit_title = t, cit_category = categorize_url u\<rparr>])"
proof -
  have old: "map_of (acc @ [(u, t)]) v = map_of acc v" if "v \<in> fst ` set acc" for v
  proof -
    from that obtain y where "map_of acc v = Some y"
      by (metis map_of_eq_None_iff not_Some_eq)
    then show ?thesis by (simp add: map_add_Some_iff)
  qed
  have new: "map_of (acc @ [(u, t)]) u = Some t" if "u \<notin> fst ` set acc"
    using that by (simp add: map_add_Some_iff map_of_eq_None_iff)
  show ?thesis
    using old new
    by (auto simp: citations_of_def first_occurrences_snoc set_first_occurrences)
qed

lemma tracks_add_citation:
  assumes "tracks w cs"
  shows "tracks (add_citation url title w) (cs @ [(url, title)])"
proof (cases url)
  case None
  with assms show ?thesis by (simp add: tracks_def add_citation_def accepted_append)
next
  case (Some u)
  with assms show ?thesis
    by (auto simp: tracks_def add_citation_def accepted_append citations_of_snoc)
qed

lemma tracks_text_parts [simp]: "tracks (w\<lparr>text_parts := x\<rparr>) cs = tracks w cs"
  by (simp add: tracks_def)

lemma tracks_annotations:
  "tracks w cs \<Longrightarrow> tracks (foldl walk_annotation w as) (cs @ map annotation_candidate as)"
proof (induction as arbitrary: w cs)
  case Nil
  then show ?case by simp
next
  case (Cons a as)
  from Cons.prems have "tracks (walk_annotation w a) (cs @ [annotation_candidate a])"
    by (simp add: walk_annotation_def annotation_candidate_def Let_def tracks_add_citation)
  from Cons.IH [OF this] show ?case by simp
qed

lemma tracks_search:
  "tracks w cs \<Longrightarrow> tracks (foldl walk_search_result w rs) (cs @ map search_candidate rs)"
proof (induction rs arbitrary: w cs)
  case Nil
  then show ?case by simp
next
  case (Cons r rs)
  from Cons.prems have "tracks (walk_search_result w r) (cs @ [search_candidate r])"
    by (simp add: walk_search_result_def search_candidate_def Let_def tracks_add_citation)
  from Cons.IH [OF this] show ?case by simp
qed

lemma tracks_fetch:
  "tracks w cs \<Longrightarrow> tracks (foldl walk_fetch_result w rs) (cs @ map fetch_candidate rs)"
proof (induction rs arbitrary: w cs)
  case Nil
  then show ?case by simp
next
  case (Cons r rs)
  from Cons.prems have "tracks (walk_fetch_result w r) (cs @ [fetch_candidate r])"
    by (simp add: walk_fetch_result_def fetch_candidate_def Let_def tracks_add_citation)
  from Cons.IH [OF this] show ?case by simp
qed

lemma tracks_content_item:
  "tracks w cs \<Longrightarrow> tracks (walk_content_item w ci) (cs @ content_candidates ci)"
  by (simp add: walk_content_item_def content_candidates_def Let_def tracks_annotations)

lemma tracks_content:
  "tracks w cs \<Longrightarrow>
   tracks (foldl walk_content_item w cis) (cs @ concat (map content_candidates cis))"
proof (induction cis arbitrary: w cs)
  case Nil
  then show ?case by simp
next
  case (Cons ci cis)
  from Cons.IH [OF tracks_content_item [OF Cons.prems, of ci]] show ?case by simp
qed

lemma tracks_item:
  "tracks w cs \<Longrightarrow> tracks (walk_item w item) (cs @ item_candidates item)"
  by (simp add: walk_item_def item_candidates_def tracks_content tracks_search tracks_fetch)

lemma tracks_items:
  "tracks w cs \<Longrightarrow> tracks (foldl walk_item w items) (cs @ concat (map item_candidates items))"
proof (induction items arbitrary: w cs)
  case Nil
  then show ?case by simp
next
  case (Cons item items)
  from Cons.IH [OF tracks_item [OF Cons.prems, of item]] show ?case by simp
qed

lemma citations_parse_response:
  "res_citations (parse_response resp) = citations_of (accepted (candidates resp))"
proof -
  have "tracks \<lparr>text_parts = [], citations = [], seen_urls = {}\<rparr> []"
    by (simp add: tracks_def citations_of_def first_occurrences_def)
  from tracks_items [OF this, of "r_output resp"] show ?thesis
    by (simp add: parse_response_def candidates_def tracks_def Let_def)
qed

lemma two_annotations_citations:
  "u \<noteq> [] \<Longrightarrow>
   res_citations (parse_response (resp\<lparr>r_output := two_annotations u t1 t2\<rparr>)) =
     [\<lparr>cit_url = u, cit_title = (if t1 \<noteq> [] \<and> t1 \<noteq> u then t1 else ''Untitled''),
       cit_category = categorize_url u\<rparr>]"
  by (simp add: parse_response_def two_annotations_def walk_item_def walk_content_item_def
      walk_annotation_def add_citation_def display_title_def getattr_none_def getattr_or_def
      truthy_str_def Let_def)

text \<open>
  C2. One set of seen urls serves the whole walk over message annotations, search
  results and fetched results: the citations of the parsed result are the first
  occurrences of the accepted candidate urls, in order of first occurrence, each with the
  title of the first candidate that has its url; no url occurs twice. In particular two
  annotations with the same url \<open>u\<close> and the titles \<open>t1\<close>, \<open>t2\<close> give one citation, with
  the title stored for the first (\<open>t1\<close> itself when it is non-empty and differs from
  the url, as in the test of the repository).
\<close>

theorem citations_first_occurrence:
  "res_citations (parse_response resp) =
     map (\<lambda>u. \<lparr>cit_url = u,
               cit_title = the (map_of (accepted (candidates resp)) u),
               cit_category = categorize_url u\<rparr>)
       (first_occurrences (map fst (accepted (candidates resp))))
   \<and> distinct (map cit_url (res_citations (parse_response resp)))
   \<and> (u \<noteq> [] \<longrightarrow>
        res_citations (parse_response (resp\<lparr>r_output := two_annotations u t1 t2\<rparr>)) =
          [\<lparr>cit_url = u, cit_title = (if t1 \<noteq> [] \<and> t1 \<noteq> u then t1 else ''Untitled''),
            cit_category = categorize_url u\<rparr>])"
proof -
  have closed: "res_citations (parse_response resp) =
      map (\<lambda>u. \<lparr>cit_url = u,
               cit_title = the (map_of (accepted (candidates resp)) u),
               cit_category = categorize_url u\<rparr>)
       (first_occurrences (map fst (accepted (candidates resp))))"
    by (simp add: citations_parse_response citations_of_def)
  have "map cit_url (res_citations (parse_response resp)) =
      first_occurrences (map fst (accepted (candidates resp)))"
    by (simp add: closed comp_def)
  then have dist: "distinct (map cit_url (res_citations (parse_response resp)))"
    by (simp add: distinct_first_occurrences)
  from closed dist two_annotations_citations [where u = u and resp = resp and ?t1.0 = t1 and ?t2.0 = t2]
  show ?thesis by blast
qed

text \<open>
  The normalizer on the response with two annotations for one url, and on the response
  in which annotations, search results and fetched results repeat urls.
\<close>

theorem citations_first_occurrence_witness:
  "res_citations (parse_response example_response) =
     [\<lparr>cit_url = ''https://example.com/same'', cit_title = ''Same URL'', cit_category = Other\<rparr>]
   \<and> res_citations (parse_response cross_kind_response) =
     [\<lparr>cit_url = ''https://example.com/a'', cit_title = ''First'', cit_category = Other\<rparr>,
      \<lparr>cit_url = ''https://example.com/b'', cit_title = ''Named'', cit_category = Other\<rparr>,
      \<lparr>cit_url = ''https://example.com/c'', cit_title = ''Untitled'', cit_category = Other\<rparr>]"
proof -
  have e: "map (\<lambda>u. \<lparr>cit_url = u,
               cit_title = the (map_of (accepted (candidates cross_kind_response)) u),
               cit_category = categorize_url u\<rparr>)
       (first_occurrences (map fst (accepted (candidates cross_kind_response)))) =
     [\<lparr>cit_url = ''https://example.com/a'', cit_title = ''First'', cit_category = Other\<rparr>,
      \<lparr>cit_url = ''https://example.com/b'', cit_title = ''Named'', cit_category = Other\<rparr>,
      \<lparr>cit_url = ''https://example.com/c'', cit_title = ''Untitled'', cit_category = Other\<rparr>]"
    by code_simp
  have x: "res_citations (parse_response cross_kind_response) =
     [\<lparr>cit_url = ''https://example.com/a'', cit_title = ''First'', cit_category = Other\<rparr>,
      \<lparr>cit_url = ''https://example.com/b'', cit_title = ''Named'', cit_category = Other\<rparr>,
      \<lparr>cit_url = ''https://example.com/c'', cit_title = ''Untitled'', cit_category = Other\<rparr>]"
    using citations_first_occurrence [where resp = cross_kind_response, THEN conjunct1]
    unfolding e .
  have u: "''https://example.com/same'' \<noteq> []" by simp
  have c: "categorize_url ''https://example.com/same'' = Other" by code_simp
  have r: "example_response\<lparr>r_output := two_annotations ''https://example.com/same'' ''Same URL'' ''Same URL Again''\<rparr> = example_response"
    by (simp add: example_response_def)
  from citations_first_occurrence
      [where resp = example_response and u = "''https://example.com/same''"
        and ?t1.0 = "''Same URL''" and ?t2.0 = "''Same URL Again''",
      THEN conjunct2, THEN conjunct2, THEN mp, OF u]
  have y: "res_citations (parse_response example_response) =
     [\<lparr>cit_url = ''https://example.com/same'', cit_title = ''Same URL'', cit_category = Other\<rparr>]"
    unfolding r c by simp
  from y x show ?thesis by (intro conjI)
qed

section \<open>Usage accounting\<close>

text \<open>
  C6. For a deep-research response with a usage record, \<open>total_tokens\<close> of the result is
  \<open>input_tokens + output_tokens\<close>, each operand 0 when absent; 100 and 200 give 300. For
  a chat response the result's \<open>total_tokens\<close> is the reported total (0 when absent),
  whatever the prompt and completion counts are: 1, 2 and a reported total of 10 give 10.
\<close>

theorem usage_totals:
  "map_of (res_usage (parse_response (resp\<lparr>r_usage := Some u\<rparr>))) ''total_tokens'' =
     Some ((case input_tokens u of None \<Rightarrow> 0 | Some n \<Rightarrow> n)
           + (case output_tokens u of None \<Rightarrow> 0 | Some n \<Rightarrow> n))
   \<and> map_of (res_usage (parse_response
        (resp\<lparr>r_usage := Some \<lparr>input_tokens = Some 100, output_tokens = Some 200\<rparr>\<rparr>)))
        ''total_tokens'' = Some 300
   \<and> map_of (res_usage (chat_result (cresp\<lparr>ch_usage := Some cu\<rparr>) model)) ''total_tokens'' =
       Some (case total_tokens cu of None \<Rightarrow> 0 | Some n \<Rightarrow> n)
   \<and> map_of (res_usage (chat_result
        (cresp\<lparr>ch_usage := Some \<lparr>prompt_tokens = Some 1, completion_tokens = Some 2,
                                  total_tokens = Some 10\<rparr>\<rparr>) model))
        ''total_tokens'' = Some 10"
  by (simp add: parse_response_def chat_result_def or_zero_def Let_def split: prod.splits)

section \<open>The two module variants\<close>

lemma preset_categorize_url_eq: "preset_categorize_url url = categorize_url url"
  unfolding preset_categorize_url_def categorize_url_def academic_domains_def
    docs_patterns_def news_domains_def
  by (rule refl)

lemma preset_add_citation_eq: "preset_add_citation url title w = add_citation url title w"
  by (cases url)
    (simp_all add: preset_add_citation_def add_citation_def display_title_def
      preset_categorize_url_eq)

lemma preset_walk_content_item_eq: "preset_walk_content_item = walk_content_item"
  by (simp add: fun_eq_iff preset_walk_content_item_def walk_content_item_def
      walk_annotation_def [abs_def] preset_add_citation_eq)

lemma preset_walk_item_eq: "preset_walk_item = walk_item"
  by (simp add: fun_eq_iff preset_walk_item_def walk_item_def walk_search_result_def [abs_def]
      walk_fetch_result_def [abs_def] preset_add_citation_eq preset_walk_content_item_eq)

text \<open>
  C9. The classifier and the deep-research normalizer of the preset-based module and of
  the fallback-capable module are the same functions: equal category for every URL, equal
  result record for every response.
\<close>

theorem preset_variant_equal:
  "preset_categorize_url url = categorize_url url
   \<and> preset_parse_response resp = parse_response resp"
  by (simp add: preset_categorize_url_eq preset_parse_response_def parse_response_def
      preset_walk_item_eq)

section \<open>The formatter\<close>

lemma group_citations_from:
  "foldl (\<lambda>by_category (i, c).
            by_category(cit_category c := by_category (cit_category c) @ [(i, c)]))
     g (enumerate n cs) cat =
   g cat @ filter (\<lambda>ic. cit_category (snd ic) = cat) (enumerate n cs)"
  by (induction cs arbitrary: g n) simp_all

lemma group_citations_filter:
  "group_citations cs cat = filter (\<lambda>ic. cit_category (snd ic) = cat) (enumerate 1 cs)"
  by (simp add: group_citations_def group_citations_from)

lemma render_citations:
  "foldl render_citation parts entries = parts @ concat (map reference_entry entries)"
  by (induction entries arbitrary: parts)
    (simp_all add: render_citation_def reference_entry_def split: prod.splits)

lemma render_category_section:
  "render_category (group_citations cs) parts (cat, name) =
     parts @ reference_section cs cat name"
  by (simp add: render_category_def reference_section_def group_citations_filter
      render_citations Let_def)

lemma format_parts_closed:
  assumes "res_citations r \<noteq> []"
  shows "format_parts r =
     [res_content r, nl @ nl @ ''## References'' @ nl]
     @ reference_section (res_citations r) Academic ''### Academic Sources''
     @ reference_section (res_citations r) News ''### News & Industry''
     @ reference_section (res_citations r) Docs ''### Documentation''
     @ reference_section (res_citations r) Other ''### Other Sources''
     @ usage_line r"
  using assms
  by (simp add: format_parts_def category_names_def render_category_section usage_line_def
      Let_def)

lemma entry_in_section:
  assumes "k < length cs" and "cit_url (cs ! k) \<noteq> []" and "cit_category (cs ! k) = cat"
  shows "(''- ['' @ str_nat (Suc k) @ ''] '' @ cit_title (cs ! k))
           \<in> set (reference_section cs cat name)"
proof -
  let ?entries = "filter (\<lambda>ic. cit_category (snd ic) = cat) (enumerate 1 cs)"
  from assms(1,3) have mem: "(Suc k, cs ! k) \<in> set ?entries"
    by (simp add: in_set_enumerate_eq)
  have ne: "?entries \<noteq> []"
  proof
    assume e: "?entries = []"
    from mem show False unfolding e by simp
  qed
  from assms(2) have "(''- ['' @ str_nat (Suc k) @ ''] '' @ cit_title (cs ! k))
      \<in> set (reference_entry (Suc k, cs ! k))"
    by (simp add: reference_entry_def)
  with mem have "(''- ['' @ str_nat (Suc k) @ ''] '' @ cit_title (cs ! k))
      \<in> set (concat (map reference_entry ?entries))"
    by (simp only: set_concat set_map) blast
  with ne show ?thesis by (simp add: reference_section_def Let_def)
qed

lemma entry_in_parts:
  assumes "k < length (res_citations r)" and "cit_url (res_citations r ! k) \<noteq> []"
  shows "(''- ['' @ str_nat (Suc k) @ ''] '' @ cit_title (res_citations r ! k))
           \<in> set (format_parts r)"
proof -
  from assms(1) have ne: "res_citations r \<noteq> []" by auto
  show ?thesis
    using entry_in_section [OF assms, of "cit_category (res_citations r ! k)"]
    by (cases "cit_category (res_citations r ! k)") (simp_all add: format_parts_closed [OF ne])
qed

text \<open>
  C5. For a result with a non-empty citation list the formatter joins with newlines: the
  content, the \<open>## References\<close> heading, then the groups academic, news, docs, other in
  this order, each only when it has a citation, and the token line when there is usage.
  Every citation carries its position in the whole citation list, counted from 1: the
  citation at index \<open>k\<close> is printed as \<open>- [k+1] title\<close> when its url is non-empty, and is
  not printed when its url is empty, while the numbers of the later citations stay.
\<close>

theorem format_references:
  assumes "res_citations r \<noteq> []"
  shows "format_structured_output r = join nl (format_parts r)
   \<and> format_parts r =
       [res_content r, nl @ nl @ ''## References'' @ nl]
       @ reference_section (res_citations r) Academic ''### Academic Sources''
       @ reference_section (res_citations r) News ''### News & Industry''
       @ reference_section (res_citations r) Docs ''### Documentation''
       @ reference_section (res_citations r) Other ''### Other Sources''
       @ usage_line r
   \<and> (k < length (res_citations r) \<and> cit_url (res_citations r ! k) \<noteq> [] \<longrightarrow>
        (''- ['' @ str_nat (Suc k) @ ''] '' @ cit_title (res_citations r ! k))
          \<in> set (format_parts r))"
  using format_parts_closed [OF assms] entry_in_parts [of k r]
  by (simp add: format_structured_output_def)

text \<open>
  The formatter on the citations \<open>a\<close> (academic) and \<open>b\<close> (news), and on the same with a
  citation without url between them: \<open>b\<close> is then number 3.
\<close>

theorem format_references_witness:
  "format_parts example_pair =
     [''X'', nl @ nl @ ''## References'' @ nl,
      nl @ ''### Academic Sources'', ''- [1] A'', ''  URL: a'',
      nl @ ''### News & Industry'', ''- [2] B'', ''  URL: b'']
   \<and> format_parts example_result =
     [''X'', nl @ nl @ ''## References'' @ nl,
      nl @ ''### Academic Sources'', ''- [1] A'', ''  URL: a'',
      nl @ ''### News & Industry'', ''- [3] B'', ''  URL: b'']
   \<and> ''- [3] B'' \<in> set (format_parts example_result)"
proof -
  have ne: "res_citations example_result \<noteq> []" by (simp add: example_result_def)
  have k: "2 < length (res_citations example_result)
           \<and> cit_url (res_citations example_result ! 2) \<noteq> []"
    by (simp add: example_result_def)
  have ne2: "res_citations example_pair \<noteq> []" by (simp add: example_pair_def)
  have s: "str_nat (Suc 2) = ''3''" "str_nat (Suc (Suc 0)) = ''2''" "str_nat (Suc 0) = ''1''" "str_nat (Suc (Suc (Suc 0))) = ''3''"
    "str_nat 3 = ''3''"
    by (simp_all add: str_nat.simps digit_char_def)
  note inst = format_references [OF ne, of 2]
  from inst [THEN conjunct2, THEN conjunct1]
  have p: "format_parts example_result =
     [''X'', nl @ nl @ ''## References'' @ nl,
      nl @ ''### Academic Sources'', ''- [1] A'', ''  URL: a'',
      nl @ ''### News & Industry'', ''- [3] B'', ''  URL: b'']"
    by (simp add: example_result_def reference_section_def reference_entry_def usage_line_def
        enumerate_simps s Let_def)
  from inst [THEN conjunct2, THEN conjunct2, THEN mp, OF k]
  have e: "''- [3] B'' \<in> set (format_parts example_result)"
    by (simp add: example_result_def s)
  from format_references [OF ne2, of 0, THEN conjunct2, THEN conjunct1]
  have q: "format_parts example_pair =
     [''X'', nl @ nl @ ''## References'' @ nl,
      nl @ ''### Academic Sources'', ''- [1] A'', ''  URL: a'',
      nl @ ''### News & Industry'', ''- [2] B'', ''  URL: b'']"
    by (simp add: example_pair_def reference_section_def reference_entry_def usage_line_def
        enumerate_simps s Let_def)
  from q p e show ?thesis by (intro conjI)
qed

section \<open>Closing the client\<close>

text \<open>
  C3 (as the code has it). \<open>close\<close> twice is \<open>close\<close> once: the second call finds no
  client and does nothing. After \<open>close\<close> the tool holds no client and the handle it
  held is closed. The tool itself stays usable: with an api key the next access to
  \<open>client\<close> constructs a new client under a new handle; only a tool without an api key
  fails, with the \<open>ValueError\<close> it raises before any \<open>close\<close> as well.
\<close>

theorem close_twice:
  "close (close t) = close t
   \<and> client_ref (close t) = None
   \<and> (client_ref t = Some h \<longrightarrow> h \<in> set (closed_handles (close t)))
   \<and> (api_key t = Some k \<longrightarrow>
        client (close t) =
          Inr (constructed t,
               (close t)\<lparr>client_ref := Some (constructed t), constructed := Suc (constructed t)\<rparr>))
   \<and> (api_key t = None \<longrightarrow>
        client (close t) = Inl (OtherException ''api_key must be provided for API calls''))"
  by (cases "client_ref t") (simp_all add: close_def client_def)

text \<open>
  \<open>close\<close> on a tool with a live client, and \<open>client\<close> on a tool without an api key.
\<close>

theorem close_twice_witness:
  "close (close live_tool) = close live_tool
   \<and> client_ref (close live_tool) = None
   \<and> 0 \<in> set (closed_handles (close live_tool))
   \<and> client (close live_tool) = Inr (1, reopened_tool)
   \<and> client (close (example_tool\<lparr>api_key := None\<rparr>)) =
       Inl (OtherException ''api_key must be provided for API calls'')"
proof -
  have h: "client_ref live_tool = Some 0" by (simp add: live_tool_def example_tool_def)
  have k: "api_key live_tool = Some ''test-key''" by (simp add: live_tool_def example_tool_def)
  have n: "api_key (example_tool\<lparr>api_key := None\<rparr>) = None" by simp
  note w = close_twice [of live_tool 0 "''test-key''"]
  have r: "(close live_tool)\<lparr>client_ref := Some (constructed live_tool),
      constructed := Suc (constructed live_tool)\<rparr> = reopened_tool"
    by (simp add: close_def live_tool_def reopened_tool_def example_tool_def)
  have c: "constructed live_tool = 1" by (simp add: live_tool_def)
  have w4: "client (close live_tool) = Inr (1, reopened_tool)"
    using w [THEN conjunct2, THEN conjunct2, THEN conjunct2, THEN conjunct1, THEN mp, OF k]
    by (simp only: r) (simp only: c)
  from w [THEN conjunct1] w [THEN conjunct2, THEN conjunct1]
    w [THEN conjunct2, THEN conjunct2, THEN conjunct1, THEN mp, OF h]
    w4
    close_twice [of "example_tool\<lparr>api_key := None\<rparr>" 0 "[]",
      THEN conjunct2, THEN conjunct2, THEN conjunct2, THEN conjunct2, THEN mp, OF n]
  show ?thesis by (intro conjI)
qed

text \<open>
  C3 as worded does not hold: after \<open>close\<close>, even twice, the next operation does
  not fail fast. \<open>client\<close> constructs a second client, and \<open>execute\<close> issues its request
  through it and succeeds.
\<close>

theorem close_then_use_counterexample:
  "client (close (close live_tool)) = Inr (1, reopened_tool)
   \<and> execute ok_sdk (close (close live_tool)) example_input =
       Inr (\<lparr>tr_success = True, tr_output = ''Result content'', tr_error = None\<rparr>,
            reopened_tool, [ResearchCall 1 example_research_req])"
  by code_simp

section \<open>The two attempts\<close>

lemma client_again: "client t = Inr (h, t') \<Longrightarrow> client t' = Inr (h, t')"
  by (auto simp: client_def split: option.splits)

lemma client_error:
  "client t = Inl e \<Longrightarrow> e = OtherException ''api_key must be provided for API calls''"
  by (auto simp: client_def split: option.splits)

lemma research_failure_failed:
  "\<not> tr_success (research_failure t e)" "\<exists>m. tr_error (research_failure t e) = Some m"
  by (cases e; simp add: failed_def Let_def)+


lemma execute_research_str:
  "execute_research api t (VStr q) effort steps instr =
     (case client t of
        Inl e \<Rightarrow> (research_failure t e, t, [])
      | Inr (h, t') \<Rightarrow>
          (case responses_create api (research_request q effort steps instr) of
             Inl e \<Rightarrow>
               (research_failure t e, t', [ResearchCall h (research_request q effort steps instr)])
           | Inr resp \<Rightarrow>
               (\<lparr>tr_success = True, tr_output = format_structured_output (parse_response resp),
                 tr_error = None\<rparr>, t', [ResearchCall h (research_request q effort steps instr)])))"
  by (simp add: execute_research_def make_research_request_def Let_def
      split: sum.splits prod.splits)

lemma execute_chat_str:
  "execute_chat api t (VStr q) model instr note =
     (case client t of
        Inl e \<Rightarrow> (chat_failure e, t, [])
      | Inr (h, t') \<Rightarrow>
          (case chat_create api (chat_request q model instr) of
             Inl e \<Rightarrow> (chat_failure e, t', [ChatCall h (chat_request q model instr)])
           | Inr resp \<Rightarrow>
               (\<lparr>tr_success = True,
                 tr_output =
                   (if note \<noteq> []
                    then note @ nl @ nl @ format_structured_output (chat_result resp model)
                    else format_structured_output (chat_result resp model)),
                 tr_error = None\<rparr>, t', [ChatCall h (chat_request q model instr)])))"
  by (simp add: execute_chat_def make_chat_request_def Let_def
      split: sum.splits prod.splits)

lemma execute_research_not_str:
  "\<forall>q. query \<noteq> VStr q \<Longrightarrow>
   execute_research api t query effort steps instr =
     (research_failure t (OtherException (not_subscriptable query)), t, [])"
  by (cases query) (simp_all add: execute_research_def)




lemma example_input_parameters:
  "truthy (dict_get example_input ''query'')"
  "dict_get example_input ''query'' = VStr ''What is AI?''"
  "mode_of example_input = ''auto''"
  "model_of example_input = ''sonar-pro''"
  "max_steps_of example_tool example_input = Inr 5"
  "reasoning_effort_of example_tool example_input = ''medium''"
  "instructions_of example_input = default_instructions"
  by (simp_all add: example_input_def example_tool_def dict_get_def dict_get_default_def
      mode_of_def model_of_def max_steps_of_def reasoning_effort_of_def instructions_of_def
      default_instructions_def)

lemma example_requests:
  "research_request ''What is AI?'' ''medium'' 5 default_instructions = example_research_req"
  "chat_request ''What is AI?'' ''sonar-pro'' default_instructions = example_chat_req"
  by (simp_all add: research_request_def chat_request_def example_research_req_def
      example_chat_req_def default_instructions_def)

lemma example_chat_output:
  "format_structured_output (chat_result example_chat_response ''sonar-pro'') = ''Chat answer''"
  by code_simp

section \<open>\<open>execute\<close>: the parameters and the three modes\<close>

lemma str_int_not_mode: "str_int i \<noteq> ''chat''" "str_int i \<noteq> ''research''"
proof -
  have c: "CHR ''c'' \<notin> set (str_nat n)" "CHR ''r'' \<notin> set (str_nat n)" for n
    using str_nat_digits [of n] by auto
  show "str_int i \<noteq> ''chat''"
    using c(1) [of "nat i"] by (auto simp: str_int_def)
  show "str_int i \<noteq> ''research''"
    using c(2) [of "nat i"] by (auto simp: str_int_def)
qed

lemma py_str_chat: "py_str v = ''chat'' \<longleftrightarrow> v = VStr ''chat''"
  by (cases v) (auto simp: str_int_not_mode)

lemma py_str_research: "py_str v = ''research'' \<longleftrightarrow> v = VStr ''research''"
  by (cases v) (auto simp: str_int_not_mode)

lemma mode_of_chat: "mode_of inp = ''chat'' \<longleftrightarrow> inp ''mode'' = Some (VStr ''chat'')"
  by (simp add: mode_of_def dict_get_default_def py_str_chat split: option.splits)

lemma mode_of_research: "mode_of inp = ''research'' \<longleftrightarrow> inp ''mode'' = Some (VStr ''research'')"
  by (simp add: mode_of_def dict_get_default_def py_str_research split: option.splits)


lemma execute_unfold:
  assumes "truthy (dict_get inp ''query'')" and "max_steps_of t inp = Inr n"
  shows "execute api t inp =
     (if mode_of inp = ''chat''
      then Inr (execute_chat api t (dict_get inp ''query'') (model_of inp) (instructions_of inp) [])
      else if mode_of inp = ''research''
      then Inr (execute_research api t (dict_get inp ''query'') (reasoning_effort_of t inp) n
                  (instructions_of inp))
      else
        (case execute_research api t (dict_get inp ''query'') (reasoning_effort_of t inp) n
                (instructions_of inp) of
           (r1, t1, calls1) \<Rightarrow>
             if \<not> tr_success r1
                \<and> should_fallback (case tr_error r1 of None \<Rightarrow> [] | Some m \<Rightarrow> m)
             then
               (case execute_chat api t1 (dict_get inp ''query'') (model_of inp)
                       (instructions_of inp)
                       (fallback_note_of (case tr_error r1 of None \<Rightarrow> [] | Some m \<Rightarrow> m)) of
                  (r2, t2, calls2) \<Rightarrow> Inr (r2, t2, calls1 @ calls2))
             else Inr (r1, t1, calls1)))"
proof -
  have e: "\<not> should_fallback []" by (simp add: should_fallback_def)
  obtain r1 t1 c1 where r1: "execute_research api t (dict_get inp ''query'')
      (reasoning_effort_of t inp) n (instructions_of inp) = (r1, t1, c1)"
    by (rule prod_cases3)
  show ?thesis
  proof (cases "tr_error r1")
    case None
    with assms e r1 show ?thesis by (simp add: execute_def Let_def)
  next
    case (Some m)
    with assms r1 show ?thesis by (simp add: execute_def Let_def)
  qed
qed

section \<open>Missing query\<close>

text \<open>
  C7. When the \<open>query\<close> entry is absent or empty (or any other false value), \<open>execute\<close>
  returns the failure \<open>Missing required parameter: query\<close> with empty output, leaves
  the tool as it was and issues no upstream request.
\<close>

theorem missing_query:
  assumes "\<not> truthy (dict_get inp ''query'')"
  shows "execute api t inp =
     Inr (\<lparr>tr_success = False, tr_output = [],
           tr_error = Some ''Missing required parameter: query''\<rparr>, t, [])"
  using assms by (simp add: execute_def)

text \<open>
  \<open>execute\<close> on the empty input and on an input whose query is the empty string.
\<close>

theorem missing_query_witness:
  "execute ok_sdk example_tool Map.empty =
     Inr (\<lparr>tr_success = False, tr_output = [],
           tr_error = Some ''Missing required parameter: query''\<rparr>, example_tool, [])
   \<and> execute ok_sdk example_tool [''query'' \<mapsto> VStr []] =
     Inr (\<lparr>tr_success = False, tr_output = [],
           tr_error = Some ''Missing required parameter: query''\<rparr>, example_tool, [])"
proof -
  have a: "\<not> truthy (dict_get Map.empty ''query'')" by (simp add: dict_get_def)
  have b: "\<not> truthy (dict_get [''query'' \<mapsto> VStr []] ''query'')" by (simp add: dict_get_def)
  from missing_query [OF a] missing_query [OF b] show ?thesis by (intro conjI)
qed

section \<open>Unknown modes\<close>

lemma extraction_mode_irrelevant:
  "dict_get (inp(''mode'' := m)) ''query'' = dict_get inp ''query''"
  "model_of (inp(''mode'' := m)) = model_of inp"
  "reasoning_effort_of t (inp(''mode'' := m)) = reasoning_effort_of t inp"
  "max_steps_of t (inp(''mode'' := m)) = max_steps_of t inp"
  "instructions_of (inp(''mode'' := m)) = instructions_of inp"
  by (simp_all add: dict_get_def dict_get_default_def model_of_def reasoning_effort_of_def
      max_steps_of_def instructions_of_def)

lemma execute_auto_path:
  assumes "mode_of inp \<noteq> ''chat''" and "mode_of inp \<noteq> ''research''"
    and "mode_of inp' \<noteq> ''chat''" and "mode_of inp' \<noteq> ''research''"
    and "inp' = inp(''mode'' := m)"
  shows "execute api t inp = execute api t inp'"
  using assms(1-4) unfolding execute_def assms(5) extraction_mode_irrelevant Let_def
  by (simp split: sum.splits)

text \<open>
  C10. Every mode value other than the strings \<open>chat\<close> and \<open>research\<close> (an absent
  mode, \<open>auto\<close>, \<open>AUTO\<close>, \<open>Research\<close>, a value that is not a string) is handled as
  \<open>auto\<close> is: \<open>execute\<close> gives the same result, tool and upstream requests as on the
  same input with the mode \<open>auto\<close>, and as on the same input without a mode. No mode is
  rejected.
\<close>

theorem unknown_mode_is_auto:
  assumes "inp ''mode'' \<noteq> Some (VStr ''chat'')" and "inp ''mode'' \<noteq> Some (VStr ''research'')"
  shows "execute api t inp = execute api t (inp(''mode'' \<mapsto> VStr ''auto''))
         \<and> execute api t inp = execute api t (inp(''mode'' := None))"
proof -
  from assms have m: "mode_of inp \<noteq> ''chat''" "mode_of inp \<noteq> ''research''"
    by (simp_all add: mode_of_chat mode_of_research)
  have a: "mode_of (inp(''mode'' \<mapsto> VStr ''auto'')) \<noteq> ''chat''"
      "mode_of (inp(''mode'' \<mapsto> VStr ''auto'')) \<noteq> ''research''"
    by (simp_all add: mode_of_chat mode_of_research)
  have n: "mode_of (inp(''mode'' := None)) \<noteq> ''chat''"
      "mode_of (inp(''mode'' := None)) \<noteq> ''research''"
    by (simp_all add: mode_of_chat mode_of_research)
  from execute_auto_path [OF m a refl] execute_auto_path [OF m n refl] show ?thesis
    by (intro conjI)
qed

lemma execute_auto_rate_limited:
  "execute rate_limited_sdk example_tool (example_input(''mode'' \<mapsto> VStr ''auto'')) =
     Inr (fallback_result, example_tool\<lparr>client_ref := Some 0, constructed := 1\<rparr>,
          [ResearchCall 0 example_research_req, ChatCall 0 example_chat_req])"
  by code_simp

text \<open>
  The mode \<open>AUTO\<close> against a rate-limited deep-research endpoint: the research request,
  then the chat fallback.
\<close>

theorem unknown_mode_is_auto_witness:
  "execute rate_limited_sdk example_tool (example_input(''mode'' \<mapsto> VStr ''AUTO'')) =
     Inr (fallback_result, example_tool\<lparr>client_ref := Some 0, constructed := 1\<rparr>,
          [ResearchCall 0 example_research_req, ChatCall 0 example_chat_req])"
proof -
  have a: "(example_input(''mode'' \<mapsto> VStr ''AUTO'')) ''mode'' \<noteq> Some (VStr ''chat'')"
    and b: "(example_input(''mode'' \<mapsto> VStr ''AUTO'')) ''mode'' \<noteq> Some (VStr ''research'')"
    by simp_all
  from unknown_mode_is_auto
      [where inp = "example_input(''mode'' \<mapsto> VStr ''AUTO'')" and api = rate_limited_sdk
        and t = example_tool, OF a b, THEN conjunct1]
  show ?thesis by (simp add: execute_auto_rate_limited)
qed

section \<open>Failures of the collaborator\<close>




section \<open>Auto mode and the chat fallback\<close>

lemma no_fallback_closed:
  "\<not> should_fallback
      (''Research failed: '' @ [CHR 0x27] @ ''NoneType'' @ [CHR 0x27] @ '' object is not subscriptable'')"
  "\<not> should_fallback
      (''Research failed: '' @ [CHR 0x27] @ ''bool'' @ [CHR 0x27] @ '' object is not subscriptable'')"
  "\<not> should_fallback
      (''Research failed: '' @ [CHR 0x27] @ ''int'' @ [CHR 0x27] @ '' object is not subscriptable'')"
  "\<not> should_fallback ''Research failed: api_key must be provided for API calls''"
  "\<not> should_fallback []"
  by code_simp+

lemma should_fallback_not_str:
  assumes "\<forall>q. query \<noteq> VStr q"
  shows "\<not> should_fallback (''Research failed: '' @ not_subscriptable query)"
proof (cases query)
  case VNone
  then show ?thesis by (simp only: not_subscriptable.simps no_fallback_closed not_False_eq_True)
next
  case (VBool b)
  then show ?thesis by (simp only: not_subscriptable.simps no_fallback_closed not_False_eq_True)
next
  case (VInt i)
  then show ?thesis by (simp only: not_subscriptable.simps no_fallback_closed not_False_eq_True)
next
  case (VStr q)
  with assms show ?thesis by blast
qed

lemma fallback_note_nonempty: "fallback_note_of msg \<noteq> []"
  by (simp add: fallback_note_of_def)

text \<open>
  C1. In auto mode (the default) \<open>execute\<close> makes the deep-research attempt first. When
  that attempt fails and its message, lower-cased, contains \<open>rate limit\<close>, \<open>quota\<close>,
  \<open>429\<close> or \<open>insufficient\<close>, exactly one chat request follows, with the same query and
  instructions, and its outcome is the final outcome: the chat failure as it is, or the
  chat answer behind the line \<open>(Fallback from Research API: message)\<close> and an empty
  line. In every other case the outcome of the deep-research attempt is returned as it
  is and no chat request is issued. At most two upstream requests are issued.
\<close>

theorem auto_mode_fallback:
  assumes q: "truthy (dict_get inp ''query'')"
    and m: "mode_of inp = ''auto''"
    and s: "max_steps_of t inp = Inr steps"
  shows "(\<forall>msg. should_fallback msg \<longleftrightarrow>
             contains ''rate limit'' (lower msg) \<or> contains ''quota'' (lower msg)
             \<or> contains ''429'' (lower msg) \<or> contains ''insufficient'' (lower msg))
     \<and> (case execute_research api t (dict_get inp ''query'') (reasoning_effort_of t inp) steps
                (instructions_of inp) of
      (r1, t1, calls1) \<Rightarrow>
        if \<not> tr_success r1 \<and> should_fallback (case tr_error r1 of None \<Rightarrow> [] | Some msg \<Rightarrow> msg)
        then \<exists>q h msg.
               dict_get inp ''query'' = VStr q \<and> tr_error r1 = Some msg
               \<and> calls1 = [ResearchCall h (research_request q (reasoning_effort_of t inp) steps
                                             (instructions_of inp))]
               \<and> execute api t inp =
                   Inr (case chat_create api (chat_request q (model_of inp) (instructions_of inp)) of
                          Inl e \<Rightarrow> chat_failure e
                        | Inr resp \<Rightarrow>
                            \<lparr>tr_success = True,
                              tr_output = fallback_note_of msg @ nl @ nl @
                                format_structured_output (chat_result resp (model_of inp)),
                              tr_error = None\<rparr>,
                        t1,
                        [ResearchCall h (research_request q (reasoning_effort_of t inp) steps
                                           (instructions_of inp)),
                         ChatCall h (chat_request q (model_of inp) (instructions_of inp))])
        else execute api t inp = Inr (r1, t1, calls1)
             \<and> (calls1 = [] \<or> (\<exists>h req. calls1 = [ResearchCall h req])))"
proof -
  have triggers: "\<forall>msg. should_fallback msg \<longleftrightarrow>
             contains ''rate limit'' (lower msg) \<or> contains ''quota'' (lower msg)
             \<or> contains ''429'' (lower msg) \<or> contains ''insufficient'' (lower msg)"
    by (simp add: should_fallback_def)
  let ?query = "dict_get inp ''query''"
  let ?effort = "reasoning_effort_of t inp"
  let ?instr = "instructions_of inp"
  let ?model = "model_of inp"
  from m have mode: "mode_of inp \<noteq> ''chat''" "mode_of inp \<noteq> ''research''" by simp_all
  note unfold = execute_unfold [OF q s, of api]
  have "case execute_research api t ?query ?effort steps ?instr of
      (r1, t1, calls1) \<Rightarrow>
        if \<not> tr_success r1 \<and> should_fallback (case tr_error r1 of None \<Rightarrow> [] | Some msg \<Rightarrow> msg)
        then \<exists>q h msg.
               ?query = VStr q \<and> tr_error r1 = Some msg
               \<and> calls1 = [ResearchCall h (research_request q ?effort steps ?instr)]
               \<and> execute api t inp =
                   Inr (case chat_create api (chat_request q ?model ?instr) of
                          Inl e \<Rightarrow> chat_failure e
                        | Inr resp \<Rightarrow>
                            \<lparr>tr_success = True,
                              tr_output = fallback_note_of msg @ nl @ nl @
                                format_structured_output (chat_result resp ?model),
                              tr_error = None\<rparr>,
                        t1,
                        [ResearchCall h (research_request q ?effort steps ?instr),
                         ChatCall h (chat_request q ?model ?instr)])
        else execute api t inp = Inr (r1, t1, calls1)
             \<and> (calls1 = [] \<or> (\<exists>h req. calls1 = [ResearchCall h req]))"
  proof (cases "\<exists>q. ?query = VStr q")
    case False
    then have nq: "\<forall>q. ?query \<noteq> VStr q" by blast
    have r: "execute_research api t ?query ?effort steps ?instr =
        (research_failure t (OtherException (not_subscriptable ?query)), t, [])"
      by (rule execute_research_not_str [OF nq])
    from should_fallback_not_str [OF nq] mode show ?thesis
      by (simp add: r unfold failed_def)
  next
    case True
    then obtain qs where qs: "?query = VStr qs" by blast
    let ?rreq = "research_request qs ?effort steps ?instr"
    let ?creq = "chat_request qs ?model ?instr"
    show ?thesis
    proof (cases "client t")
      case (Inl e)
      then have e: "e = OtherException ''api_key must be provided for API calls''"
        by (rule client_error)
      have r: "execute_research api t (VStr qs) ?effort steps ?instr = (research_failure t e, t, [])"
        by (simp add: execute_research_str Inl)
      from mode show ?thesis
        by (simp add: qs r unfold e failed_def no_fallback_closed)
    next
      case (Inr p)
      obtain h t' where p: "p = (h, t')" by (cases p)
      from Inr p have c: "client t = Inr (h, t')" by simp
      then have c': "client t' = Inr (h, t')" by (rule client_again)
      show ?thesis
      proof (cases "responses_create api ?rreq")
        case resp: (Inr resp)
        have r: "execute_research api t (VStr qs) ?effort steps ?instr =
            (\<lparr>tr_success = True, tr_output = format_structured_output (parse_response resp),
              tr_error = None\<rparr>, t', [ResearchCall h ?rreq])"
          by (simp add: execute_research_str c resp)
        from mode show ?thesis by (simp add: qs r unfold)
      next
        case err: (Inl e)
        have r: "execute_research api t (VStr qs) ?effort steps ?instr =
            (research_failure t e, t', [ResearchCall h ?rreq])"
          by (simp add: execute_research_str c err)
        obtain msg where msg: "tr_error (research_failure t e) = Some msg"
          using research_failure_failed(2) by blast
        have ns: "\<not> tr_success (research_failure t e)" by (rule research_failure_failed(1))
        show ?thesis
        proof (cases "should_fallback msg")
          case False
          with mode ns msg show ?thesis
            by (simp add: qs r unfold del: research_failure.simps)
        next
          case True
          have ch: "execute_chat api t' (VStr qs) ?model ?instr (fallback_note_of msg) =
              (case chat_create api ?creq of
                 Inl e \<Rightarrow> chat_failure e
               | Inr resp \<Rightarrow>
                   \<lparr>tr_success = True,
                     tr_output = fallback_note_of msg @ nl @ nl @
                       format_structured_output (chat_result resp ?model),
                     tr_error = None\<rparr>,
               t', [ChatCall h ?creq])"
            by (simp add: execute_chat_str c' fallback_note_nonempty split: sum.splits)
          from True mode ns msg show ?thesis
            by (simp add: qs r unfold ch del: research_failure.simps chat_failure.simps)
        qed
      qed
    qed
  qed
  with triggers show ?thesis by blast
qed

lemma example_attempts:
  "execute_research status_429_sdk example_tool (VStr ''What is AI?'') ''medium'' 5
       default_instructions =
     (failed ''API error 429: Too Many Requests'' ''API error 429: Too Many Requests'',
      live_tool, [ResearchCall 0 example_research_req])"
  "execute_research invalid_schema_sdk example_tool (VStr ''What is AI?'') ''medium'' 5
       default_instructions =
     (failed ''Invalid request: invalid schema'' ''Invalid request: invalid schema'',
      live_tool, [ResearchCall 0 example_research_req])"
  "should_fallback ''API error 429: Too Many Requests''"
  "\<not> should_fallback ''Invalid request: invalid schema''"
  by code_simp+

text \<open>
  Auto mode against a deep-research endpoint that fails with the status error 429 (one
  chat request follows and its answer is returned behind the fallback line) and against
  one that fails with an invalid schema (the failure is returned, no chat request).
\<close>

theorem auto_mode_fallback_witness:
  "execute status_429_sdk example_tool example_input =
     Inr (\<lparr>tr_success = True,
           tr_output = ''(Fallback from Research API: API error 429: Too Many Requests)''
                       @ nl @ nl @ ''Chat answer'',
           tr_error = None\<rparr>,
          live_tool, [ResearchCall 0 example_research_req, ChatCall 0 example_chat_req])
   \<and> execute invalid_schema_sdk example_tool example_input =
     Inr (failed ''Invalid request: invalid schema'' ''Invalid request: invalid schema'',
          live_tool, [ResearchCall 0 example_research_req])"
proof -
  note p = example_input_parameters
  have chat: "chat_create status_429_sdk req = Inr example_chat_response" for req
    by (simp add: status_429_sdk_def)
  from auto_mode_fallback [OF p(1) p(3) p(5), of status_429_sdk, THEN conjunct2]
  have "\<exists>q h msg.
      VStr ''What is AI?'' = VStr q \<and> Some ''API error 429: Too Many Requests'' = Some msg
      \<and> [ResearchCall 0 example_research_req] =
          [ResearchCall h (research_request q ''medium'' 5 default_instructions)]
      \<and> execute status_429_sdk example_tool example_input =
          Inr (\<lparr>tr_success = True,
                tr_output = fallback_note_of msg @ nl @ nl @
                  format_structured_output (chat_result example_chat_response ''sonar-pro''),
                tr_error = None\<rparr>,
               live_tool,
               [ResearchCall h (research_request q ''medium'' 5 default_instructions),
                ChatCall h (chat_request q ''sonar-pro'' default_instructions)])"
    unfolding p example_attempts(1) using example_attempts(3)
    by (simp add: failed_def chat)
  then obtain q h msg where
    q: "VStr ''What is AI?'' = VStr q" and msg: "Some ''API error 429: Too Many Requests'' = Some msg"
    and h: "[ResearchCall 0 example_research_req] =
          [ResearchCall h (research_request q ''medium'' 5 default_instructions)]"
    and ex: "execute status_429_sdk example_tool example_input =
          Inr (\<lparr>tr_success = True,
                tr_output = fallback_note_of msg @ nl @ nl @
                  format_structured_output (chat_result example_chat_response ''sonar-pro''),
                tr_error = None\<rparr>,
               live_tool,
               [ResearchCall h (research_request q ''medium'' 5 default_instructions),
                ChatCall h (chat_request q ''sonar-pro'' default_instructions)])"
    by blast
  from q have q': "q = ''What is AI?''" by simp
  from msg have msg': "msg = ''API error 429: Too Many Requests''" by simp
  from h have h': "h = 0" by simp
  have a: "execute status_429_sdk example_tool example_input =
     Inr (\<lparr>tr_success = True,
           tr_output = ''(Fallback from Research API: API error 429: Too Many Requests)''
                       @ nl @ nl @ ''Chat answer'',
           tr_error = None\<rparr>,
          live_tool, [ResearchCall 0 example_research_req, ChatCall 0 example_chat_req])"
    using ex unfolding q' msg' h' example_requests example_chat_output
    by (simp add: fallback_note_of_def)
  from auto_mode_fallback [OF p(1) p(3) p(5), of invalid_schema_sdk, THEN conjunct2]
  have b: "execute invalid_schema_sdk example_tool example_input =
     Inr (failed ''Invalid request: invalid schema'' ''Invalid request: invalid schema'',
          live_tool, [ResearchCall 0 example_research_req])"
    unfolding p example_attempts(2) using example_attempts(4)
    by (simp add: failed_def)
  from a b show ?thesis by (intro conjI)
qed

end
